theory Spec2Isabelle
  imports Complex_Main
begin

section \<open>Exceptions and console effects\<close>

text \<open>
  The script \<^verbatim>\<open>nerfstudio/scripts/get_plane.py\<close> has two functions with content:
  \<^verbatim>\<open>launch\<close> and \<^verbatim>\<open>plane_estimation\<close>. A Python exception is a value of \<open>exn\<close>;
  a function that may raise returns \<open>exn + 'a\<close> with \<open>Inl\<close> for the raised exception.
  \<open>OtherException\<close> stands for any exception class the script itself never names.
\<close>

datatype exn =
    AssertionError
  | ValueError
  | IndexError
  | RuntimeError
  | KeyboardInterrupt
  | OtherException string

text \<open>
  What \<^verbatim>\<open>launch\<close> does to the outside world, in the order it does it. The last three
  constructors are the effects of a multi-worker start (\<^verbatim>\<open>_find_free_port\<close>,
  \<^verbatim>\<open>mp.spawn\<close>, \<^verbatim>\<open>dist.init_process_group\<close>); they are part of the vocabulary so
  that their absence from a log can be stated.
\<close>

datatype 'cfg event =
    CallMain 'cfg
  | PrintTrace exn
  | FlushProfiler 'cfg
  | FindFreePort
  | SpawnWorker nat
  | InitProcessGroup

section \<open>The launcher\<close>

text \<open>
  \<^verbatim>\<open>
  def launch(main_func, num_devices_per_machine, num_machines=1, machine_rank=0,
             dist_url="auto", config=None, timeout=DEFAULT_TIMEOUT, device_type="cuda"):
      assert config is not None
      world_size = num_machines * num_devices_per_machine
      if world_size == 0:
          raise ValueError("world_size cannot be 0")
      elif world_size == 1:
          try:
              main_func(config=config)
          except KeyboardInterrupt:
              CONSOLE.print(traceback.format_exc())
          finally:
              profiler.flush_profiler(config.logging)
  \<close>
  The counts are Python integers (\<open>int\<close>), \<open>config\<close> is optional with default
  \<^verbatim>\<open>None\<close>. The result is the raised exception or \<^verbatim>\<open>None\<close> (\<open>()\<close>), with the log of
  effects. \<^verbatim>\<open>CONSOLE.print\<close> and \<^verbatim>\<open>flush_profiler\<close> are library calls, taken to return.
  The value \<^verbatim>\<open>main_func\<close> returns is dropped by the launcher. The body reads none of
  \<^verbatim>\<open>machine_rank\<close>, \<^verbatim>\<open>dist_url\<close>, \<^verbatim>\<open>timeout\<close> and \<^verbatim>\<open>device_type\<close>; the first two are kept
  as arguments of the model, the last two are left out.
\<close>

definition launch ::
  "('cfg \<Rightarrow> exn + 'r) \<Rightarrow> int \<Rightarrow> int \<Rightarrow> int \<Rightarrow> string \<Rightarrow> 'cfg option
     \<Rightarrow> (exn + unit) \<times> 'cfg event list" where
  "launch main_func num_devices_per_machine num_machines machine_rank dist_url config =
     (case config of
        None \<Rightarrow> (Inl AssertionError, [])
      | Some c \<Rightarrow>
          (let world_size = num_machines * num_devices_per_machine in
           if world_size = 0 then (Inl ValueError, [])
           else if world_size = 1 then
             (case main_func c of
                Inr r \<Rightarrow> (Inr (), [CallMain c, FlushProfiler c])
              | Inl KeyboardInterrupt \<Rightarrow>
                  (Inr (), [CallMain c, PrintTrace KeyboardInterrupt, FlushProfiler c])
              | Inl e \<Rightarrow> (Inl e, [CallMain c, FlushProfiler c]))
           else (Inr (), [])))"

text \<open>How often the entry point was called, read off the log.\<close>

fun is_call :: "'cfg event \<Rightarrow> bool" where
  "is_call (CallMain c) = True"
| "is_call e = False"

definition calls :: "'cfg event list \<Rightarrow> nat" where
  "calls evs = length (filter is_call evs)"

text \<open>Entry points used as concrete inputs.\<close>

definition returning_main :: "unit \<Rightarrow> exn + unit" where
  "returning_main c = Inr ()"

definition interrupted_main :: "unit \<Rightarrow> exn + unit" where
  "interrupted_main c = Inl KeyboardInterrupt"

definition failing_main :: "unit \<Rightarrow> exn + unit" where
  "failing_main c = Inl RuntimeError"

section \<open>Choosing the checkpoint\<close>

text \<open>
  \<^verbatim>\<open>
  if load_dir is not None:
      load_step = config.load_step
      if load_step is None:
          load_step = sorted(int(x[x.find("-") + 1 : x.find(".")]) for x in os.listdir(load_dir))[-1]
      load_path = load_dir / f"step-{load_step:09d}.ckpt"
      assert load_path.exists(), f"Checkpoint {load_path} does not exist"
  \<close>
  The directory is its listing, a list of file names in the order \<^verbatim>\<open>os.listdir\<close> gives
  them. The string operations are Python's: \<^verbatim>\<open>str.find\<close> gives the first index or
  \<open>-1\<close>, a slice counts a negative bound from the end and clips both bounds, \<^verbatim>\<open>int\<close>
  strips white space, takes an optional sign and decimal digits with single underscores
  between them, and raises \<open>ValueError\<close> on anything else (ASCII names are modelled).
\<close>

definition find_char :: "char \<Rightarrow> string \<Rightarrow> int" where
  "find_char c s = (if c \<in> set s then int (length (takeWhile (\<lambda>d. d \<noteq> c) s)) else - 1)"

definition py_slice :: "string \<Rightarrow> int \<Rightarrow> int \<Rightarrow> string" where
  "py_slice s i j =
     (let n = int (length s);
          a = (if i < 0 then max 0 (i + n) else min i n);
          b = (if j < 0 then max 0 (j + n) else min j n)
      in take (nat (b - a)) (drop (nat a) s))"

text \<open>The text \<^verbatim>\<open>int(s)\<close> accepts. On an ASCII string the white space it strips is
  \<^verbatim>\<open>\t \n \v \f \r\<close> (codes 9 to 13) and the space (code 32).\<close>

definition is_space :: "char \<Rightarrow> bool" where
  "is_space c = (let k = (of_char c :: nat) in (9 \<le> k \<and> k \<le> 13) \<or> k = 32)"

definition is_digit :: "char \<Rightarrow> bool" where
  "is_digit c = (let k = (of_char c :: nat) in 48 \<le> k \<and> k \<le> 57)"

definition digit_val :: "char \<Rightarrow> int" where
  "digit_val c = int (of_char c) - 48"

definition strip :: "string \<Rightarrow> string" where
  "strip s = rev (dropWhile is_space (rev (dropWhile is_space s)))"

fun body_ok :: "bool \<Rightarrow> string \<Rightarrow> bool" where
  "body_ok prev [] = prev"
| "body_ok prev (c # cs) =
     (if is_digit c then body_ok True cs
      else if c = CHR ''_'' \<and> prev then body_ok False cs
      else False)"

definition decimal_value :: "string \<Rightarrow> int" where
  "decimal_value s = foldl (\<lambda>a c. 10 * a + digit_val c) 0 (filter is_digit s)"

definition py_int :: "string \<Rightarrow> exn + int" where
  "py_int s =
     (let t = strip s;
          neg = (t \<noteq> [] \<and> hd t = CHR ''-'');
          body = (if t \<noteq> [] \<and> (hd t = CHR ''-'' \<or> hd t = CHR ''+'') then tl t else t)
      in if body_ok False body
         then Inr (if neg then - decimal_value body else decimal_value body)
         else Inl ValueError)"

text \<open>The format \<^verbatim>\<open>{load_step:09d}\<close>: decimal digits, zero-filled to nine characters, the
  sign counted in the width.\<close>

definition digit_char :: "nat \<Rightarrow> char" where
  "digit_char d = char_of (48 + d)"

fun digits_of :: "nat \<Rightarrow> string" where
  "digits_of n = (if n < 10 then [digit_char n] else digits_of (n div 10) @ [digit_char (n mod 10)])"

declare digits_of.simps [simp del]

definition zfill :: "nat \<Rightarrow> string \<Rightarrow> string" where
  "zfill w s = replicate (w - length s) CHR ''0'' @ s"

definition format_09d :: "int \<Rightarrow> string" where
  "format_09d n = (if n < 0 then CHR ''-'' # zfill 8 (digits_of (nat (- n)))
                   else zfill 9 (digits_of (nat n)))"

definition ckpt_name :: "int \<Rightarrow> string" where
  "ckpt_name load_step = ''step-'' @ format_09d load_step @ ''.ckpt''"

text \<open>The generator expression, the sort and the index \<^verbatim>\<open>[-1]\<close>; an empty list has no
  last element (\<open>IndexError\<close>).\<close>

definition step_of_name :: "string \<Rightarrow> exn + int" where
  "step_of_name x = py_int (py_slice x (find_char CHR ''-'' x + 1) (find_char CHR ''.'' x))"

fun steps_of_names :: "string list \<Rightarrow> exn + int list" where
  "steps_of_names [] = Inr []"
| "steps_of_names (x # xs) =
     (case step_of_name x of
        Inl e \<Rightarrow> Inl e
      | Inr n \<Rightarrow> (case steps_of_names xs of Inl e \<Rightarrow> Inl e | Inr ns \<Rightarrow> Inr (n # ns)))"

definition latest_step :: "string list \<Rightarrow> exn + int" where
  "latest_step listing =
     (case steps_of_names listing of
        Inl e \<Rightarrow> Inl e
      | Inr ns \<Rightarrow> (if ns = [] then Inl IndexError else Inr (last (sort ns))))"

text \<open>The path that is loaded: \<^verbatim>\<open>load_path.exists()\<close> is membership in the listing.\<close>

definition resolve_load_path :: "string list \<Rightarrow> int option \<Rightarrow> exn + string" where
  "resolve_load_path listing load_step =
     (case (case load_step of None \<Rightarrow> latest_step listing | Some n \<Rightarrow> Inr n) of
        Inl e \<Rightarrow> Inl e
      | Inr n \<Rightarrow> (if ckpt_name n \<in> set listing then Inr (ckpt_name n) else Inl AssertionError))"

section \<open>Floating-point values\<close>

text \<open>
  Tensor entries are IEEE-754 binary32 numbers (torch's default \<^verbatim>\<open>float32\<close>). A value is a
  finite number, one of the two zeros, an infinity or a NaN: \<open>Fin 0\<close> is \<open>+0.0\<close> and
  \<open>NZero\<close> is \<open>-0.0\<close>. A float division by zero raises nothing in torch: it gives an
  infinity or a NaN.
\<close>

datatype fl = Fin real | NZero | PInf | NInf | NaN

fun is_finite :: "fl \<Rightarrow> bool" where
  "is_finite (Fin a) = True"
| "is_finite NZero = True"
| "is_finite v = False"

fun fl_value :: "fl \<Rightarrow> real" where
  "fl_value (Fin a) = a"
| "fl_value v = 0"

text \<open>The sign bit.\<close>

fun is_neg :: "fl \<Rightarrow> bool" where
  "is_neg (Fin a) = (a < 0)"
| "is_neg NZero = True"
| "is_neg NInf = True"
| "is_neg v = False"

definition is_zero :: "fl \<Rightarrow> bool" where
  "is_zero v = (is_finite v \<and> fl_value v = 0)"

text \<open>A finite float of real value \<open>r\<close> (a zero of either sign when \<open>r = 0\<close>).\<close>

definition has_value :: "fl \<Rightarrow> real \<Rightarrow> bool" where
  "has_value v r = (is_finite v \<and> fl_value v = r)"

text \<open>
  The finite binary32 numbers: a significand of 24 bits and an exponent from the
  subnormal \<open>2\<^sup>-\<^sup>1\<^sup>4\<^sup>9\<close> up to the largest number \<open>(2\<^sup>2\<^sup>4 - 1) 2\<^sup>1\<^sup>0\<^sup>4\<close>.
\<close>

definition binary32 :: "real set" where
  "binary32 = {real_of_int m * 2 powi e | m e. \<bar>m\<bar> < 2 ^ 24 \<and> - 149 \<le> e \<and> e \<le> 104}"

definition max_float :: real where
  "max_float = (2 ^ 24 - 1) * 2 ^ 104"

text \<open>
  Rounding of an exact result to the nearest binary32 number, ties to the even
  significand; a result of magnitude at least \<open>2\<^sup>1\<^sup>2\<^sup>8 - 2\<^sup>1\<^sup>0\<^sup>3\<close> overflows to an infinity. A
  representable number is its own rounding.
\<close>

definition round32 :: "real \<Rightarrow> fl" where
  "round32 r =
     (if r \<in> binary32 then Fin r
      else if 2 ^ 128 - 2 ^ 103 \<le> \<bar>r\<bar> then (if 0 < r then PInf else NInf)
      else if max_float < r then Fin max_float
      else if r < - max_float then Fin (- max_float)
      else (let lo = Max {q \<in> binary32. q \<le> r};
                hi = Min {q \<in> binary32. r \<le> q}
            in if r - lo < hi - r then Fin lo
               else if hi - r < r - lo then Fin hi
               else if even \<lfloor>lo / (hi - lo)\<rfloor> then Fin lo
               else Fin hi))"

text \<open>A float is representable when it is special or its value is a binary32 number.\<close>

fun representable :: "fl \<Rightarrow> bool" where
  "representable (Fin a) = (a \<in> binary32)"
| "representable v = True"

text \<open>The sign of a zero result and of an infinite result (\<open>True\<close> is negative).\<close>

definition signed_zero :: "bool \<Rightarrow> fl \<Rightarrow> fl" where
  "signed_zero s v = (if s \<and> v = Fin 0 then NZero else v)"

definition signed_inf :: "bool \<Rightarrow> fl" where
  "signed_inf s = (if s then NInf else PInf)"

fun fl_neg :: "fl \<Rightarrow> fl" where
  "fl_neg (Fin a) = (if a = 0 then NZero else Fin (- a))"
| "fl_neg NZero = Fin 0"
| "fl_neg PInf = NInf"
| "fl_neg NInf = PInf"
| "fl_neg NaN = NaN"

text \<open>
  Addition: an exact zero sum is \<open>-0\<close> only when both operands are negative zeros, and
  \<open>inf + (-inf)\<close> is NaN.
\<close>

definition fl_add :: "fl \<Rightarrow> fl \<Rightarrow> fl" where
  "fl_add a b =
     (if a = NaN \<or> b = NaN then NaN
      else if is_finite a \<and> is_finite b then
        (let r = fl_value a + fl_value b
         in if r = 0 then (if is_neg a \<and> is_neg b then NZero else Fin 0) else round32 r)
      else if is_finite b then a
      else if is_finite a then b
      else if a = b then a
      else NaN)"

definition fl_sub :: "fl \<Rightarrow> fl \<Rightarrow> fl" where
  "fl_sub a b = fl_add a (fl_neg b)"

text \<open>Multiplication: the sign is the exclusive or of the signs, and \<open>0 * inf\<close> is NaN.\<close>

definition fl_mul :: "fl \<Rightarrow> fl \<Rightarrow> fl" where
  "fl_mul a b =
     (if a = NaN \<or> b = NaN then NaN
      else if is_finite a \<and> is_finite b then
        signed_zero (is_neg a \<noteq> is_neg b) (round32 (fl_value a * fl_value b))
      else if is_zero a \<or> is_zero b then NaN
      else signed_inf (is_neg a \<noteq> is_neg b))"

text \<open>
  Division: a finite non-zero number over a zero is an infinity whose sign is the
  exclusive or of the signs (the sign of the zero counts), \<open>0 / 0\<close> and \<open>inf / inf\<close> are
  NaN.
\<close>

definition fl_div :: "fl \<Rightarrow> fl \<Rightarrow> fl" where
  "fl_div a b =
     (if a = NaN \<or> b = NaN then NaN
      else if is_finite a \<and> is_finite b then
        (if fl_value b = 0 then
           (if fl_value a = 0 then NaN else signed_inf (is_neg a \<noteq> is_neg b))
         else signed_zero (is_neg a \<noteq> is_neg b) (round32 (fl_value a / fl_value b)))
      else if is_finite a then signed_zero (is_neg a \<noteq> is_neg b) (Fin 0)
      else if is_finite b then signed_inf (is_neg a \<noteq> is_neg b)
      else NaN)"

section \<open>Back-projection of one camera\<close>

text \<open>
  A point is a row of three entries, a homogeneous point a row of four. Both matrices
  are used through \<^verbatim>\<open>(M @ P.T).T[..., :3]\<close>, so only their first three rows of four
  entries take part (\<^verbatim>\<open>camera_to_worlds\<close> has exactly these; a fourth row of the
  transform matrix is dropped by the slice).
\<close>

type_synonym vec3 = "fl \<times> fl \<times> fl"

type_synonym vec4 = "fl \<times> fl \<times> fl \<times> fl"

type_synonym mat34 = "vec4 \<times> vec4 \<times> vec4"

record camera =
  fx :: fl
  fy :: fl
  cx :: fl
  cy :: fl
  camera_to_worlds :: mat34

text \<open>An entry of a matrix product: four products, each rounded, summed from the left.\<close>

fun dot4 :: "vec4 \<Rightarrow> vec4 \<Rightarrow> fl" where
  "dot4 (a0, a1, a2, a3) (b0, b1, b2, b3) =
     fl_add (fl_add (fl_add (fl_mul a0 b0) (fl_mul a1 b1)) (fl_mul a2 b2)) (fl_mul a3 b3)"

fun mat_apply :: "mat34 \<Rightarrow> vec4 \<Rightarrow> vec3" where
  "mat_apply (r0, r1, r2) v = (dot4 r0 v, dot4 r1 v, dot4 r2 v)"

definition identity_matrix :: mat34 where
  "identity_matrix =
     ((Fin 1, Fin 0, Fin 0, Fin 0),
      (Fin 0, Fin 1, Fin 0, Fin 0),
      (Fin 0, Fin 0, Fin 1, Fin 0))"

text \<open>
  An elementwise operation of two one-dimensional tensors, with torch's broadcasting:
  equal sizes, or one operand of size one; any other pair of sizes is a
  \<open>RuntimeError\<close>.
\<close>

definition broadcast2 :: "(fl \<Rightarrow> fl \<Rightarrow> fl) \<Rightarrow> fl list \<Rightarrow> fl list \<Rightarrow> exn + fl list" where
  "broadcast2 f us vs =
     (if length us = length vs then Inr (map2 f us vs)
      else if length us = 1 then Inr (map (f (hd us)) vs)
      else if length vs = 1 then Inr (map (\<lambda>u. f u (hd vs)) us)
      else Inl RuntimeError)"

fun homogeneous :: "vec3 \<Rightarrow> vec4" where
  "homogeneous (a, b, c) = (a, b, c, Fin 1)"

fun scale_point :: "fl \<Rightarrow> vec3 \<Rightarrow> vec3" where
  "scale_point s (a, b, c) = (fl_mul a s, fl_mul b s, fl_mul c s)"

text \<open>
  The body of the loop over the cameras (lines 172 to 192):
  \<^verbatim>\<open>
  X = (x - cx) * depth / fx
  Y = (y - cy) * depth / fy
  Z = depth
  camera_xyz = torch.stack([X, Y, Z, torch.ones_like(X)], dim=-1)
  world_coordinates = (c2w @ camera_xyz.T).T[..., :3]
  world_coordinates_homogeneous = torch.cat([world_coordinates, torch.ones(len(world_coordinates), 1)], dim=-1)
  transformed_world_coordinates = (transform_matrix @ world_coordinates_homogeneous.T).T[..., :3]
  scaled_transformed_world_coordinates = transformed_world_coordinates * scale_factor
  \<close>
  \<open>depth\<close>, \<open>y\<close> and \<open>x\<close> are one-dimensional tensors, the intrinsics are single
  values. \<^verbatim>\<open>torch.stack\<close> wants its four operands of one size (\<open>RuntimeError\<close>
  otherwise). Nothing here looks at \<open>fx\<close> or \<open>fy\<close> before dividing.
\<close>

definition back_project_camera ::
  "camera \<Rightarrow> fl list \<Rightarrow> fl list \<Rightarrow> fl list \<Rightarrow> mat34 \<Rightarrow> fl \<Rightarrow> exn + vec3 list" where
  "back_project_camera cam depth y x transform_matrix scale_factor =
     (case broadcast2 fl_mul (map (\<lambda>v. fl_sub v (cx cam)) x) depth of
        Inl e \<Rightarrow> Inl e
      | Inr xd \<Rightarrow>
     (case broadcast2 fl_mul (map (\<lambda>v. fl_sub v (cy cam)) y) depth of
        Inl e \<Rightarrow> Inl e
      | Inr yd \<Rightarrow>
          (let X = map (\<lambda>v. fl_div v (fx cam)) xd;
               Y = map (\<lambda>v. fl_div v (fy cam)) yd;
               Z = depth
           in if length X = length Y \<and> length Y = length Z then
                (let camera_xyz = map2 (\<lambda>a (b, c). (a, b, c, Fin 1)) X (zip Y Z);
                     world_coordinates = map (mat_apply (camera_to_worlds cam)) camera_xyz;
                     world_coordinates_homogeneous = map homogeneous world_coordinates;
                     transformed_world_coordinates =
                       map (mat_apply transform_matrix) world_coordinates_homogeneous
                 in Inr (map (scale_point scale_factor) transformed_world_coordinates))
              else Inl RuntimeError)))"

text \<open>Cameras and samples used as concrete inputs.\<close>

definition unit_camera :: camera where
  "unit_camera = \<lparr>fx = Fin 1, fy = Fin 1, cx = Fin 0, cy = Fin 0,
                   camera_to_worlds = identity_matrix\<rparr>"

definition degenerate_camera :: camera where
  "degenerate_camera = \<lparr>fx = Fin 0, fy = Fin 1, cx = Fin 0, cy = Fin 0,
                         camera_to_worlds = identity_matrix\<rparr>"

section \<open>The plane fit\<close>

text \<open>
  \<^verbatim>\<open>
  world_xyz_np = np.concatenate([xyz.numpy() for xyz in world_xyz], axis=0)
  reg = LinearRegression()
  reg.fit(world_xyz_np[:, :2], world_xyz_np[:, 2])
  a, b = reg.coef_
  d = reg.intercept_
  c = -1
  \<close>
  \<^verbatim>\<open>np.concatenate\<close> raises \<open>ValueError\<close> on an empty list of arrays.
\<close>

definition np_concatenate :: "'a list list \<Rightarrow> exn + 'a list" where
  "np_concatenate arrays = (if arrays = [] then Inl ValueError else Inr (concat arrays))"

fun finite_point :: "vec3 \<Rightarrow> bool" where
  "finite_point (a, b, c) = (is_finite a \<and> is_finite b \<and> is_finite c)"

text \<open>
  \<^verbatim>\<open>LinearRegression\<close> is scikit-learn's, not the script's. Its \<^verbatim>\<open>fit\<close> first validates the
  input and raises \<open>ValueError\<close> for an array without rows and for an entry that is NaN
  or infinite. What it computes from a validated array (in floating point, with
  LAPACK's least-squares solver) is an argument of the model: a \<open>regression\<close> maps the
  rows to \<^verbatim>\<open>(coef_[0], coef_[1], intercept_)\<close> or to the exception of its numerical
  routines.
\<close>

type_synonym regression = "vec3 list \<Rightarrow> exn + fl \<times> fl \<times> fl"

definition LinearRegression_fit :: "regression \<Rightarrow> vec3 list \<Rightarrow> exn + fl \<times> fl \<times> fl" where
  "LinearRegression_fit reg P =
     (if P = [] \<or> \<not> list_all finite_point P then Inl ValueError else reg P)"

text \<open>The coefficients \<open>(a, b, c, d)\<close> of \<open>a x + b y + c z + d = 0\<close>; \<open>c\<close> is the integer \<open>-1\<close>.\<close>

type_synonym plane_equation = "fl \<times> fl \<times> int \<times> fl"

definition fit_plane :: "regression \<Rightarrow> vec3 list \<Rightarrow> exn + plane_equation" where
  "fit_plane reg world_xyz_np =
     (case LinearRegression_fit reg world_xyz_np of
        Inl e \<Rightarrow> Inl e
      | Inr (a, b, d) \<Rightarrow> Inr (a, b, - 1, d))"

text \<open>
  The regression on a single row \<open>(x, y, z)\<close>, used as a concrete input: the column
  means are the row itself, the centred data are zero, so the least-squares solution of
  least norm is \<open>(0, 0)\<close> and the intercept is \<open>z - (x 0 + y 0) = z\<close>. The table has
  this one kind of entry (for \<open>z\<close> not a zero, whose sign is then not in question);
  no other value of it is used.
\<close>

definition single_row_fit :: regression where
  "single_row_fit P =
     (case P of
        [(x, y, z)] \<Rightarrow> (if is_zero z then undefined else Inr (Fin 0, Fin 0, z))
      | _ \<Rightarrow> undefined)"

section \<open>The estimation job\<close>

text \<open>
  What \<^verbatim>\<open>plane_estimation\<close> reads from its collaborators: the data manager's cameras,
  ray indices (entry \<open>i\<close> holds three tensors, of which \<^verbatim>\<open>[1]\<close> is \<open>y\<close> and \<^verbatim>\<open>[2]\<close> is
  \<open>x\<close>), transform and scale, its reference vertices, and the depth outputs that
  \<^verbatim>\<open>get_surface_detection\<close> returns. The configuration names the checkpoint source: a
  directory (its listing), a step, or a checkpoint file (whether it exists).
\<close>

record pipeline =
  expanded_cameras :: "camera list"
  ray_indices :: "(fl list \<times> fl list \<times> fl list) list"
  transform_matrix :: mat34
  scale_factor :: fl
  vertices :: "vec3 list"
  surface_detection :: "fl list list"

record trainer_config =
  load_dir :: "string list option"
  load_step :: "int option"
  load_checkpoint :: "bool option"
  pipeline_setup :: pipeline

datatype console =
    LoadingLatest
  | DoneLoading string
  | DoneLoadingFile
  | NoCheckpoint
  | PrintVertices "vec3 list"
  | ShowPlot plane_equation "vec3 list"
  | PrintPlane plane_equation

text \<open>
  Lines 130 to 161. \<^verbatim>\<open>torch.load\<close> and the loading of the pipeline and scaler state are
  the collaborators' and taken to succeed; the two assertions are the script's own.
\<close>

definition load_state :: "trainer_config \<Rightarrow> exn + console list" where
  "load_state config =
     (case load_dir config of
        Some listing \<Rightarrow>
          (case resolve_load_path listing (load_step config) of
             Inl e \<Rightarrow> Inl e
           | Inr load_path \<Rightarrow>
               Inr ((if load_step config = None then [LoadingLatest] else []) @ [DoneLoading load_path]))
      | None \<Rightarrow>
          (case load_checkpoint config of
             Some path_exists \<Rightarrow> (if path_exists then Inr [DoneLoadingFile] else Inl AssertionError)
           | None \<Rightarrow> Inr [NoCheckpoint]))"

text \<open>
  Lines 170 to 193, the loop \<^verbatim>\<open>for i in range(num_image)\<close>: camera \<open>i\<close>, its depth output
  and its ray indices give one array of points, appended to \<^verbatim>\<open>world_xyz\<close>. The
  assertion before the loop makes \<^verbatim>\<open>output[i]\<close> and the camera exist; a missing entry of
  \<^verbatim>\<open>ray_indices\<close> is an \<open>IndexError\<close>.
\<close>

definition camera_points :: "pipeline \<Rightarrow> nat \<Rightarrow> exn + vec3 list" where
  "camera_points p i =
     (if i < length (ray_indices p) then
        (case ray_indices p ! i of
           (r0, y, x) \<Rightarrow>
             back_project_camera (expanded_cameras p ! i) (surface_detection p ! i) y x
               (transform_matrix p) (scale_factor p))
      else Inl IndexError)"

fun world_xyz_loop :: "pipeline \<Rightarrow> nat list \<Rightarrow> exn + vec3 list list" where
  "world_xyz_loop p [] = Inr []"
| "world_xyz_loop p (i # rest) =
     (case camera_points p i of
        Inl e \<Rightarrow> Inl e
      | Inr pts \<Rightarrow>
          (case world_xyz_loop p rest of
             Inl e \<Rightarrow> Inl e
           | Inr others \<Rightarrow> Inr (pts # others)))"

text \<open>Lines 163 to 197: the aggregate point cloud \<^verbatim>\<open>world_xyz_np\<close>.\<close>

definition point_cloud :: "pipeline \<Rightarrow> exn + vec3 list" where
  "point_cloud p =
     (let output = surface_detection p;
          num_image = length (expanded_cameras p)
      in if num_image \<noteq> length output then Inl AssertionError
         else (case world_xyz_loop p [0..<num_image] of
                 Inl e \<Rightarrow> Inl e
               | Inr world_xyz \<Rightarrow> np_concatenate world_xyz))"

text \<open>
  The whole function, with the regression of scikit-learn as its first argument. It
  has no \<^verbatim>\<open>return\<close> statement: its value is Python's \<^verbatim>\<open>None\<close>, here \<open>None\<close> of the type
  of the value the spec expects. The vertices and the plane go to the console and to
  the figure.
\<close>

definition plane_estimation ::
  "regression \<Rightarrow> trainer_config
     \<Rightarrow> exn + (plane_equation \<times> vec3 list) option \<times> console list" where
  "plane_estimation reg config =
     (case load_state config of
        Inl e \<Rightarrow> Inl e
      | Inr loaded \<Rightarrow>
     (case point_cloud (pipeline_setup config) of
        Inl e \<Rightarrow> Inl e
      | Inr world_xyz_np \<Rightarrow>
     (case fit_plane reg world_xyz_np of
        Inl e \<Rightarrow> Inl e
      | Inr plane \<Rightarrow>
          (let vs = vertices (pipeline_setup config)
           in Inr (None, loaded @ [PrintVertices vs, ShowPlot plane vs, PrintPlane plane])))))"

text \<open>
  The shape of the data the loop expects: one depth output per camera, ray indices for
  every camera, and for camera \<open>i\<close> as many \<open>y\<close> and \<open>x\<close> indices as depth samples.
\<close>

definition well_shaped :: "pipeline \<Rightarrow> bool" where
  "well_shaped p =
     (length (surface_detection p) = length (expanded_cameras p)
      \<and> length (expanded_cameras p) \<le> length (ray_indices p)
      \<and> list_all (\<lambda>i. case ray_indices p ! i of
                         (r0, y, x) \<Rightarrow> length y = length (surface_detection p ! i)
                                     \<and> length x = length (surface_detection p ! i))
           [0..<length (expanded_cameras p)])"

text \<open>
  Jobs used as concrete inputs. The first has two cameras with unit intrinsics and
  identity extrinsics, four depth samples each (all of depth 1), identity normalization
  and scale factor 2. The second has one such camera with the single sample \<open>col = 3\<close>,
  \<open>row = 5\<close>, \<open>depth = 2\<close>, scale factor 1 and two reference vertices; it loads no
  checkpoint.
\<close>

definition two_cameras :: pipeline where
  "two_cameras =
     \<lparr>expanded_cameras = [unit_camera, unit_camera],
      ray_indices =
        [([Fin 0, Fin 0, Fin 0, Fin 0], [Fin 0, Fin 0, Fin 1, Fin 1], [Fin 0, Fin 1, Fin 0, Fin 1]),
         ([Fin 1, Fin 1, Fin 1, Fin 1], [Fin 0, Fin 0, Fin 1, Fin 1], [Fin 2, Fin 3, Fin 2, Fin 3])],
      transform_matrix = identity_matrix,
      scale_factor = Fin 2,
      vertices = [(Fin 0, Fin 0, Fin 0), (Fin 1, Fin 1, Fin 1)],
      surface_detection = [[Fin 1, Fin 1, Fin 1, Fin 1], [Fin 1, Fin 1, Fin 1, Fin 1]]\<rparr>"

definition one_sample :: pipeline where
  "one_sample =
     \<lparr>expanded_cameras = [unit_camera],
      ray_indices = [([Fin 0], [Fin 5], [Fin 3])],
      transform_matrix = identity_matrix,
      scale_factor = Fin 1,
      vertices = [(Fin 0, Fin 0, Fin 0), (Fin 1, Fin 1, Fin 1)],
      surface_detection = [[Fin 2]]\<rparr>"

definition example_config :: trainer_config where
  "example_config =
     \<lparr>load_dir = None, load_step = None, load_checkpoint = None, pipeline_setup = one_sample\<rparr>"

text \<open>A job that restores the latest checkpoint of a directory with two checkpoints.\<close>

definition latest_config :: trainer_config where
  "latest_config =
     \<lparr>load_dir = Some [''step-000000010.ckpt'', ''step-000000005.ckpt''], load_step = None,
      load_checkpoint = None, pipeline_setup = two_cameras\<rparr>"

section \<open>Properties of the floating-point operations\<close>

lemma round32_exact: "r \<in> binary32 \<Longrightarrow> round32 r = Fin r"
  by (simp add: round32_def)

lemma int_binary32:
  assumes "\<bar>m\<bar> < 2 ^ 24"
  shows "real_of_int m \<in> binary32"
proof -
  have "real_of_int m = real_of_int m * 2 powi 0" by simp
  with assms show ?thesis unfolding binary32_def by fastforce
qed

lemma zero_binary32: "0 \<in> binary32"
  using int_binary32 [of 0] by simp

lemma one_binary32: "1 \<in> binary32"
  using int_binary32 [of 1] by simp

lemma numeral_binary32:
  assumes "(numeral k :: int) < 2 ^ 24"
  shows "numeral k \<in> binary32"
  using int_binary32 [of "numeral k"] assms by simp

lemma neg_binary32:
  assumes "r \<in> binary32"
  shows "- r \<in> binary32"
proof -
  from assms obtain m e where r: "r = real_of_int m * 2 powi e"
    and m: "\<bar>m\<bar> < 2 ^ 24" and e: "- 149 \<le> e" "e \<le> 104"
    unfolding binary32_def by blast
  from r have "- r = real_of_int (- m) * 2 powi e" by simp
  moreover from m have "\<bar>- m\<bar> < 2 ^ 24" by simp
  ultimately show ?thesis using e unfolding binary32_def by blast
qed

lemma finite_binary32: "finite binary32"
proof -
  have "binary32 \<subseteq> (\<lambda>(m, e). real_of_int m * 2 powi e) ` ({- (2 ^ 24)..2 ^ 24} \<times> {- 149..104})"
  proof
    fix x assume "x \<in> binary32"
    then obtain m e where x: "x = real_of_int m * 2 powi e"
      and m: "\<bar>m\<bar> < 2 ^ 24" and e: "- 149 \<le> e" "e \<le> 104"
      unfolding binary32_def by blast
    from m e have "(m, e) \<in> {- (2 ^ 24)..2 ^ 24} \<times> {- 149..104}" by auto
    with x show "x \<in> (\<lambda>(m, e). real_of_int m * 2 powi e) ` ({- (2 ^ 24)..2 ^ 24} \<times> {- 149..104})"
      by (intro image_eqI [where x = "(m, e)"]) simp_all
  qed
  then show ?thesis by (rule finite_subset) simp
qed

lemma max_float_binary32: "max_float \<in> binary32"
proof -
  have "max_float = real_of_int (2 ^ 24 - 1) * 2 powi 104
      \<and> \<bar>(2 ^ 24 - 1 :: int)\<bar> < 2 ^ 24 \<and> - 149 \<le> (104 :: int) \<and> (104 :: int) \<le> 104"
    by (simp add: max_float_def)
  then show ?thesis unfolding binary32_def by (intro CollectI exI)
qed

lemma round32_representable: "representable (round32 r)"
proof -
  let ?lo = "{q \<in> binary32. q \<le> r}" and ?hi = "{q \<in> binary32. r \<le> q}"
  consider (rep) "r \<in> binary32"
    | (over) "r \<notin> binary32" "2 ^ 128 - 2 ^ 103 \<le> \<bar>r\<bar>"
    | (top) "r \<notin> binary32" "\<not> 2 ^ 128 - 2 ^ 103 \<le> \<bar>r\<bar>" "max_float < r"
    | (bottom) "r \<notin> binary32" "\<not> 2 ^ 128 - 2 ^ 103 \<le> \<bar>r\<bar>" "\<not> max_float < r"
        "r < - max_float"
    | (inside) "r \<notin> binary32" "\<not> 2 ^ 128 - 2 ^ 103 \<le> \<bar>r\<bar>" "\<not> max_float < r"
        "\<not> r < - max_float"
    by blast
  then show ?thesis
  proof cases
    case rep
    then show ?thesis by (simp add: round32_def)
  next
    case over
    then show ?thesis by (simp add: round32_def)
  next
    case top
    then show ?thesis by (simp add: round32_def max_float_binary32)
  next
    case bottom
    then show ?thesis by (simp add: round32_def max_float_binary32 neg_binary32)
  next
    case inside
    have f: "finite ?lo" "finite ?hi" using finite_binary32 by simp_all
    from inside have "- max_float \<in> ?lo" and "max_float \<in> ?hi"
      by (simp_all add: max_float_binary32 neg_binary32)
    then have "?lo \<noteq> {}" and "?hi \<noteq> {}" by blast+
    with f have "Max ?lo \<in> ?lo" and "Min ?hi \<in> ?hi"
      using Max_in [of ?lo] Min_in [of ?hi] by blast+
    then have "Max ?lo \<in> binary32" and "Min ?hi \<in> binary32" by simp_all
    with inside show ?thesis by (simp add: round32_def Let_def)
  qed
qed

lemma has_value_Fin: "has_value (Fin r) r"
  by (simp add: has_value_def)

lemma has_value_signed_zero: "has_value (signed_zero s (Fin r)) r"
  by (simp add: has_value_def signed_zero_def)

lemma has_value_not_NaN: "has_value a u \<Longrightarrow> a \<noteq> NaN \<and> is_finite a \<and> fl_value a = u"
  by (auto simp: has_value_def)

lemma fl_mul_value:
  assumes "has_value a u" and "has_value b v" and "u * v \<in> binary32"
  shows "has_value (fl_mul a b) (u * v)"
  using assms has_value_not_NaN [OF assms(1)] has_value_not_NaN [OF assms(2)]
  by (simp add: fl_mul_def round32_exact has_value_signed_zero)

lemma fl_div_value:
  assumes "has_value a u" and "has_value b v" and "v \<noteq> 0" and "u / v \<in> binary32"
  shows "has_value (fl_div a b) (u / v)"
  using assms has_value_not_NaN [OF assms(1)] has_value_not_NaN [OF assms(2)]
  by (simp add: fl_div_def round32_exact has_value_signed_zero)

lemma fl_add_value:
  assumes "has_value a u" and "has_value b v" and "u + v \<in> binary32"
  shows "has_value (fl_add a b) (u + v)"
  using assms has_value_not_NaN [OF assms(1)] has_value_not_NaN [OF assms(2)]
  by (simp add: fl_add_def round32_exact has_value_def Let_def)

lemma fl_neg_value: "has_value a u \<Longrightarrow> has_value (fl_neg a) (- u)"
  by (cases a) (simp_all add: has_value_def)

lemma fl_sub_value:
  assumes "has_value a u" and "has_value b v" and "u - v \<in> binary32"
  shows "has_value (fl_sub a b) (u - v)"
  using fl_add_value [OF assms(1) fl_neg_value [OF assms(2)]] assms(3)
  by (simp add: fl_sub_def)

text \<open>Adding \<open>+0\<close> to a finite float leaves its value and makes a zero positive.\<close>

lemma fl_add_pos_zero:
  assumes "has_value a u" and "u \<in> binary32"
  shows "fl_add a (Fin 0) = Fin u"
  using assms has_value_not_NaN [OF assms(1)]
  by (simp add: fl_add_def round32_exact Let_def)

lemma fl_add_representable: "representable (fl_add a b)"
proof (cases "is_finite a \<and> is_finite b")
  case True
  then have "a \<noteq> NaN" "b \<noteq> NaN" by auto
  with True show ?thesis
    by (simp add: fl_add_def Let_def round32_representable zero_binary32)
next
  case False
  then show ?thesis by (cases a; cases b) (simp_all add: fl_add_def)
qed

lemma fl_mul_one:
  assumes "representable t"
  shows "fl_mul t (Fin 1) = t"
  using assms
  by (cases t) (simp_all add: fl_mul_def round32_exact signed_zero_def signed_inf_def
      is_zero_def zero_binary32)

lemma fl_mul_numerals:
  assumes "u * v \<in> binary32"
  shows "fl_mul (Fin u) (Fin v) = signed_zero ((u < 0) \<noteq> (v < 0)) (Fin (u * v))"
  using assms by (simp add: fl_mul_def round32_exact)

section \<open>Properties of the launcher\<close>

text \<open>A call that passes no configuration stops at the assertion, whatever the counts.\<close>

lemma launch_without_config:
  "launch main_func num_devices_per_machine num_machines machine_rank dist_url None
     = (Inl AssertionError, [])"
  by (simp add: launch_def)

text \<open>
  C1. For every call of \<open>launch\<close> with a configuration \<open>c\<close> where
  \<open>num_machines * num_devices_per_machine = 0\<close>, the launcher raises \<open>ValueError\<close>
  (the spec's InvalidConfiguration) and the entry point is called zero times.
  (The assertion of line 109 is kept in the model: a call that passes no configuration
  at all stops there, before the world size is computed.)
\<close>

theorem launch_world_size_zero:
  assumes "num_machines * num_devices_per_machine = 0"
  shows "fst (launch main_func num_devices_per_machine num_machines machine_rank dist_url (Some c))
           = Inl ValueError
       \<and> calls (snd (launch main_func num_devices_per_machine num_machines machine_rank
                          dist_url (Some c))) = 0"
  using assms by (simp add: launch_def calls_def)

theorem launch_world_size_zero_witness:
  "(1::int) * 0 = 0
   \<and> fst (launch returning_main 0 1 0 ''auto'' (Some ())) = Inl ValueError
   \<and> calls (snd (launch returning_main 0 1 0 ''auto'' (Some ()))) = 0"
proof -
  have h: "(1::int) * 0 = 0" by simp
  from launch_world_size_zero [OF h, where main_func = returning_main and machine_rank = 0
      and dist_url = "''auto''" and c = "()"] h
  show ?thesis by blast
qed

text \<open>
  C2, as the spec states it: in the single-worker path every error of the entry point is
  caught and its trace printed. The code catches \<open>KeyboardInterrupt\<close> only: an entry
  point raising \<open>RuntimeError\<close> makes \<open>launch\<close> raise it too, and no trace is printed.
\<close>

theorem launch_other_error_not_caught:
  "launch failing_main 1 1 0 ''auto'' (Some ())
     = (Inl RuntimeError, [CallMain (), FlushProfiler ()])"
  by (simp add: launch_def failing_main_def)

text \<open>
  C2, amended. In the single-worker path (\<open>world_size = 1\<close>) the entry point is called
  exactly once and the profiler flush is the last effect on every exit path. A
  \<open>KeyboardInterrupt\<close> of the entry point is caught: its trace is printed and \<open>launch\<close>
  returns normally. Any other exception is not caught: no trace is printed and
  \<open>launch\<close> raises it, after the flush. When the entry point returns, so does
  \<open>launch\<close>, and no trace is printed.
\<close>

theorem launch_single_worker:
  assumes "num_machines * num_devices_per_machine = 1"
  shows "(case launch main_func num_devices_per_machine num_machines machine_rank dist_url (Some c) of
            (res, evs) \<Rightarrow>
              calls evs = 1 \<and> last evs = FlushProfiler c
            \<and> (main_func c = Inl KeyboardInterrupt \<longrightarrow>
                   res = Inr () \<and> evs = [CallMain c, PrintTrace KeyboardInterrupt, FlushProfiler c])
            \<and> (\<forall>e. main_func c = Inl e \<and> e \<noteq> KeyboardInterrupt \<longrightarrow>
                   res = Inl e \<and> evs = [CallMain c, FlushProfiler c])
            \<and> (\<forall>r. main_func c = Inr r \<longrightarrow>
                   res = Inr () \<and> evs = [CallMain c, FlushProfiler c]))"
  using assms
  by (cases "main_func c") (auto simp: launch_def calls_def split: exn.splits)

theorem launch_single_worker_witness:
  "(1::int) * 1 = 1
   \<and> launch interrupted_main 1 1 0 ''auto'' (Some ())
       = (Inr (), [CallMain (), PrintTrace KeyboardInterrupt, FlushProfiler ()])"
proof -
  have h: "(1::int) * 1 = 1" by simp
  from launch_single_worker [OF h, where main_func = interrupted_main and machine_rank = 0
      and dist_url = "''auto''" and c = "()"]
  show ?thesis by (auto simp: interrupted_main_def)
qed

text \<open>
  C10. For every configuration \<open>c\<close> with
  \<open>world_size = num_machines * num_devices_per_machine > 1\<close>, \<open>launch\<close> returns normally
  with an empty log of effects: the entry point is not called, no worker is spawned, no
  port is looked up, no process group is initialised and nothing is raised. The function
  has no branch for this case.
\<close>

theorem launch_multi_worker_ignored:
  assumes "num_machines * num_devices_per_machine > 1"
  shows "launch main_func num_devices_per_machine num_machines machine_rank dist_url (Some c)
           = (Inr (), [])
       \<and> calls (snd (launch main_func num_devices_per_machine num_machines machine_rank
                          dist_url (Some c))) = 0"
proof -
  from assms have "num_machines * num_devices_per_machine \<noteq> 0"
    and "num_machines * num_devices_per_machine \<noteq> 1" by linarith+
  then show ?thesis
    unfolding launch_def calls_def Let_def by (simp del: mult_eq_0_iff)
qed

theorem launch_multi_worker_ignored_witness:
  "(2::int) * 4 > 1
   \<and> launch returning_main 4 2 0 ''auto'' (Some ()) = (Inr (), [])
   \<and> calls (snd (launch returning_main 4 2 0 ''auto'' (Some ()))) = 0"
proof -
  have h: "(2::int) * 4 > 1" by simp
  from launch_multi_worker_ignored [OF h, where main_func = returning_main and machine_rank = 0
      and dist_url = "''auto''" and c = "()"] h
  show ?thesis by blast
qed

section \<open>Properties of the checkpoint choice\<close>

lemma digit_char_is_digit: "d < 10 \<Longrightarrow> is_digit (digit_char d)"
  by (simp add: is_digit_def digit_char_def)

lemma digit_val_digit_char: "d < 10 \<Longrightarrow> digit_val (digit_char d) = int d"
  by (simp add: digit_val_def digit_char_def)

lemma is_digit_not_space: "is_digit c \<Longrightarrow> \<not> is_space c"
  by (simp add: is_digit_def is_space_def Let_def)

lemma is_digit_not_special:
  "is_digit c \<Longrightarrow> c \<noteq> CHR ''-'' \<and> c \<noteq> CHR ''+'' \<and> c \<noteq> CHR ''.'' \<and> c \<noteq> CHR ''_''"
  by (auto simp: is_digit_def)

lemma digits_of_is_digit: "c \<in> set (digits_of n) \<Longrightarrow> is_digit c"
proof (induction n arbitrary: c rule: digits_of.induct)
  case (1 n)
  show ?case
  proof (cases "n < 10")
    case True
    with "1.prems" show ?thesis
      by (simp add: digits_of.simps [of n] digit_char_is_digit)
  next
    case False
    with "1.prems" "1.IH" show ?thesis
      by (auto simp: digits_of.simps [of n] digit_char_is_digit)
  qed
qed

lemma digits_of_nonempty: "digits_of n \<noteq> []"
  by (subst digits_of.simps) simp

lemma decimal_value_snoc:
  "is_digit c \<Longrightarrow> decimal_value (s @ [c]) = 10 * decimal_value s + digit_val c"
  by (simp add: decimal_value_def)

lemma decimal_value_digits_of: "decimal_value (digits_of n) = int n"
proof (induction n rule: digits_of.induct)
  case (1 n)
  show ?case
  proof (cases "n < 10")
    case True
    then show ?thesis
      by (simp add: digits_of.simps [of n] decimal_value_def digit_char_is_digit
          digit_val_digit_char)
  next
    case False
    then have "decimal_value (digits_of n)
        = 10 * decimal_value (digits_of (n div 10)) + digit_val (digit_char (n mod 10))"
      by (simp add: digits_of.simps [of n] decimal_value_snoc digit_char_is_digit)
    also have "\<dots> = 10 * int (n div 10) + int (n mod 10)"
      using False "1.IH" by (simp add: digit_val_digit_char)
    also have "\<dots> = int n"
      by (simp flip: of_nat_mult of_nat_add add: zdiv_int zmod_int)
    finally show ?thesis .
  qed
qed

lemma zero_is_digit: "is_digit CHR ''0''"
  by (simp add: is_digit_def)

lemma decimal_value_zeros: "decimal_value (replicate k CHR ''0'' @ s) = decimal_value s"
proof -
  have "foldl (\<lambda>a c. 10 * a + digit_val c) 0 (replicate k CHR ''0'') = 0"
    by (induction k) (simp_all add: digit_val_def)
  then show ?thesis
    by (simp add: decimal_value_def zero_is_digit)
qed

lemma decimal_value_zfill: "decimal_value (zfill w (digits_of n)) = int n"
  by (simp add: zfill_def decimal_value_zeros decimal_value_digits_of)

lemma zfill_is_digit: "c \<in> set (zfill w (digits_of n)) \<Longrightarrow> is_digit c"
  by (auto simp: zfill_def zero_is_digit digits_of_is_digit)

lemma zfill_nonempty: "zfill w (digits_of n) \<noteq> []"
  by (simp add: zfill_def digits_of_nonempty)

lemma body_ok_digits: "s \<noteq> [] \<Longrightarrow> (\<And>c. c \<in> set s \<Longrightarrow> is_digit c) \<Longrightarrow> body_ok p s"
proof (induction s arbitrary: p)
  case Nil
  then show ?case by simp
next
  case (Cons c s)
  then show ?case by (cases s) auto
qed

lemma strip_digits:
  assumes "s \<noteq> []" and "\<And>c. c \<in> set s \<Longrightarrow> is_digit c"
  shows "strip s = s"
proof -
  from assms(1) have h: "hd s \<in> set s" and l: "last s \<in> set s" by simp_all
  have a: "\<not> is_space (hd s)"
    by (rule is_digit_not_space) (rule assms(2) [OF h])
  have b: "\<not> is_space (last s)"
    by (rule is_digit_not_space) (rule assms(2) [OF l])
  from a assms(1) have "dropWhile is_space s = s" by (cases s) auto
  moreover from b assms(1) have "dropWhile is_space (rev s) = rev s"
    by (cases "rev s") (auto simp: last_rev hd_rev)
  ultimately show ?thesis by (simp add: strip_def)
qed

lemma py_int_digits:
  assumes "s \<noteq> []" and "\<And>c. c \<in> set s \<Longrightarrow> is_digit c"
  shows "py_int s = Inr (decimal_value s)"
proof -
  from assms have "is_digit (hd s)" by auto
  then have "hd s \<noteq> CHR ''-''" and "hd s \<noteq> CHR ''+''"
    using is_digit_not_special by blast+
  with assms show ?thesis
    by (simp add: py_int_def strip_digits body_ok_digits)
qed

lemma find_char_minus:
  "find_char CHR ''-'' (''step-'' @ t) = 4"
  by (simp add: find_char_def)

lemma find_char_dot:
  assumes "\<And>c. c \<in> set ds \<Longrightarrow> is_digit c"
  shows "find_char CHR ''.'' (''step-'' @ ds @ ''.ckpt'') = 5 + int (length ds)"
proof -
  from assms have "\<And>c. c \<in> set ds \<Longrightarrow> c \<noteq> CHR ''.''"
    using is_digit_not_special by blast
  then have "takeWhile (\<lambda>d. d \<noteq> CHR ''.'') (ds @ ''.ckpt'') = ds"
    by (induction ds) auto
  then show ?thesis by (simp add: find_char_def)
qed

lemma step_of_name_ckpt_name: "step_of_name (ckpt_name (int n)) = Inr (int n)"
proof -
  let ?ds = "zfill 9 (digits_of n)"
  have name: "ckpt_name (int n) = ''step-'' @ ?ds @ ''.ckpt''"
    by (simp add: ckpt_name_def format_09d_def)
  have dig: "\<And>c. c \<in> set ?ds \<Longrightarrow> is_digit c" by (rule zfill_is_digit)
  have f1: "find_char CHR ''-'' (''step-'' @ ?ds @ ''.ckpt'') = 4" by (rule find_char_minus)
  have f2: "find_char CHR ''.'' (''step-'' @ ?ds @ ''.ckpt'') = 5 + int (length ?ds)"
    using dig by (rule find_char_dot)
  have sl: "py_slice (''step-'' @ ?ds @ ''.ckpt'') 5 (5 + int (length ?ds)) = ?ds"
    by (simp add: py_slice_def Let_def)
  have "step_of_name (ckpt_name (int n)) = py_int ?ds"
    unfolding step_of_name_def name f1 f2 using sl by simp
  also have "\<dots> = Inr (decimal_value ?ds)"
    using zfill_nonempty dig by (rule py_int_digits)
  finally show ?thesis by (simp add: decimal_value_zfill)
qed

lemma steps_of_names_ckpt: "steps_of_names (map (\<lambda>n. ckpt_name (int n)) ns) = Inr (map int ns)"
  by (induction ns) (simp_all add: step_of_name_ckpt_name)

lemma sorted_le_last: "sorted xs \<Longrightarrow> x \<in> set xs \<Longrightarrow> x \<le> last xs"
  by (induction xs) auto

lemma last_sort_Max:
  assumes "xs \<noteq> []"
  shows "last (sort xs) = Max (set xs)"
proof -
  from assms have ne: "sort xs \<noteq> []"
    by (metis length_sort length_0_conv)
  have "Max (set (sort xs)) = last (sort xs)"
  proof (rule Max_eqI)
    show "finite (set (sort xs))" by simp
    show "last (sort xs) \<in> set (sort xs)" using ne by (rule last_in_set)
    fix y assume "y \<in> set (sort xs)"
    then show "y \<le> last (sort xs)"
      using sorted_sort sorted_le_last by blast
  qed
  then show ?thesis by simp
qed

lemma latest_step_ckpt:
  assumes "ns \<noteq> []"
  shows "latest_step (map (\<lambda>n. ckpt_name (int n)) ns) = Inr (int (Max (set ns)))"
proof -
  have "int (Max (set ns)) = Max (int ` set ns)"
    using assms by (intro mono_Max_commute) (auto simp: mono_def)
  then have mx: "Max (int ` set ns) = int (Max (set ns))" by simp
  show ?thesis
    using assms by (simp add: latest_step_def steps_of_names_ckpt last_sort_Max mx)
qed

text \<open>
  C7. A checkpoint directory whose files are named \<^verbatim>\<open>step-<9-digit-step>.ckpt\<close>, for a
  non-empty list \<open>ns\<close> of steps in any order, with no explicit step requested, resolves
  to the file of the numerically largest step: that file is in the directory, the step
  read from every file name of the directory is at most its step, and it is the file
  the job loads. For the directory of the spec (steps 10 and 5) this is
  \<^verbatim>\<open>step-000000010.ckpt\<close>.
\<close>

theorem resolve_latest:
  assumes "ns \<noteq> []"
  shows "resolve_load_path (map (\<lambda>n. ckpt_name (int n)) ns) None
           = Inr (ckpt_name (int (Max (set ns))))
       \<and> ckpt_name (int (Max (set ns))) \<in> set (map (\<lambda>n. ckpt_name (int n)) ns)
       \<and> step_of_name (ckpt_name (int (Max (set ns)))) = Inr (int (Max (set ns)))
       \<and> (\<forall>x \<in> set (map (\<lambda>n. ckpt_name (int n)) ns).
             \<exists>k. step_of_name x = Inr k \<and> k \<le> int (Max (set ns)))
       \<and> (load_dir config = Some (map (\<lambda>n. ckpt_name (int n)) ns) \<and> load_step config = None
            \<longrightarrow> load_state config
                  = Inr [LoadingLatest, DoneLoading (ckpt_name (int (Max (set ns))))])"
proof -
  have "Max (set ns) \<in> set ns" using assms by simp
  then have mem: "ckpt_name (int (Max (set ns))) \<in> set (map (\<lambda>n. ckpt_name (int n)) ns)"
    by auto
  have le: "\<exists>k. step_of_name x = Inr k \<and> k \<le> int (Max (set ns))"
    if "x \<in> set (map (\<lambda>n. ckpt_name (int n)) ns)" for x
  proof -
    from that obtain n where n: "n \<in> set ns" and x: "x = ckpt_name (int n)" by auto
    from n have "n \<le> Max (set ns)" by simp
    with x show ?thesis by (simp add: step_of_name_ckpt_name)
  qed
  from mem latest_step_ckpt [OF assms] have r:
    "resolve_load_path (map (\<lambda>n. ckpt_name (int n)) ns) None
       = Inr (ckpt_name (int (Max (set ns))))"
    by (simp add: resolve_load_path_def)
  then have "load_state config = Inr [LoadingLatest, DoneLoading (ckpt_name (int (Max (set ns))))]"
    if "load_dir config = Some (map (\<lambda>n. ckpt_name (int n)) ns) \<and> load_step config = None"
    using that by (simp add: load_state_def)
  with r mem le show ?thesis by (simp add: step_of_name_ckpt_name)
qed

lemma ckpt_name_10: "ckpt_name 10 = ''step-000000010.ckpt''"
  by code_simp

lemma ckpt_name_5: "ckpt_name 5 = ''step-000000005.ckpt''"
  by code_simp

theorem resolve_latest_witness:
  "resolve_load_path [''step-000000010.ckpt'', ''step-000000005.ckpt''] None
     = Inr ''step-000000010.ckpt''
   \<and> resolve_load_path [''step-000000005.ckpt'', ''step-000000010.ckpt''] None
     = Inr ''step-000000010.ckpt''
   \<and> load_state latest_config = Inr [LoadingLatest, DoneLoading ''step-000000010.ckpt'']"
proof -
  have a: "[10, 5] \<noteq> ([] :: nat list)" and b: "[5, 10] \<noteq> ([] :: nat list)" by simp_all
  have m: "Max (set [10, 5 :: nat]) = 10" "Max (set [5, 10 :: nat]) = 10" by simp_all
  have c: "load_dir latest_config = Some [''step-000000010.ckpt'', ''step-000000005.ckpt'']
      \<and> load_step latest_config = None"
    by (simp add: latest_config_def)
  from resolve_latest [OF a, of latest_config] resolve_latest [OF b, of latest_config] c
  show ?thesis
    by (simp only: m list.map of_nat_numeral ckpt_name_10 ckpt_name_5)
qed

section \<open>Properties of the back-projection\<close>

lemma broadcast2_same: "length us = length vs \<Longrightarrow> broadcast2 f us vs = Inr (map2 f us vs)"
  by (simp add: broadcast2_def)

text \<open>With sample arrays of one length the loop body raises nothing and yields, for
  sample \<open>k\<close>, the point computed from entry \<open>k\<close> of each array.\<close>

lemma back_project_camera_samples:
  assumes "length x = length depth" and "length y = length depth"
  shows "back_project_camera cam depth y x T s =
     Inr (map (\<lambda>k. scale_point s (mat_apply T (homogeneous (mat_apply (camera_to_worlds cam)
            (fl_div (fl_mul (fl_sub (x ! k) (cx cam)) (depth ! k)) (fx cam),
             fl_div (fl_mul (fl_sub (y ! k) (cy cam)) (depth ! k)) (fy cam),
             depth ! k, Fin 1)))))
          [0..<length depth])"
  using assms
  by (auto simp: back_project_camera_def broadcast2_same Let_def intro!: nth_equalityI)

text \<open>Every entry of a matrix product is representable, so a scale factor 1 changes
  nothing, and some other scale factor multiplies the same entries.\<close>

lemma dot4_representable: "representable (dot4 r v)"
proof -
  obtain a0 a1 a2 a3 where r: "r = (a0, a1, a2, a3)" by (cases r)
  obtain b0 b1 b2 b3 where v: "v = (b0, b1, b2, b3)" by (cases v)
  show ?thesis unfolding r v by (simp add: fl_add_representable)
qed

lemma scale_after_one:
  "(case scale_point (Fin 1) (mat_apply T w) of
      (a, b, c) \<Rightarrow> (fl_mul a s, fl_mul b s, fl_mul c s))
   = scale_point s (mat_apply T w)"
proof -
  obtain r0 r1 r2 where T: "T = (r0, r1, r2)" by (cases T)
  show ?thesis
    unfolding T by (simp add: fl_mul_one dot4_representable)
qed

lemma back_project_camera_scale:
  assumes "back_project_camera cam depth y x T (Fin 1) = Inr ps"
  shows "back_project_camera cam depth y x T s
         = Inr (map (\<lambda>(a, b, c). (fl_mul a s, fl_mul b s, fl_mul c s)) ps)"
  using assms
  by (auto simp: back_project_camera_def Let_def scale_after_one
      split: sum.splits if_splits)

text \<open>A row of the identity matrix picks its entry of a finite homogeneous point.\<close>

lemma fl_mul_zero_one: "fl_mul (Fin 0) (Fin 1) = Fin 0"
  by (simp add: fl_mul_def round32_exact zero_binary32 signed_zero_def)

lemma dot4_unit:
  assumes "has_value X u" and "has_value Y v" and "has_value Z w"
  shows "u \<in> binary32 \<Longrightarrow> dot4 (Fin 1, Fin 0, Fin 0, Fin 0) (X, Y, Z, Fin 1) = Fin u"
    and "v \<in> binary32 \<Longrightarrow> dot4 (Fin 0, Fin 1, Fin 0, Fin 0) (X, Y, Z, Fin 1) = Fin v"
    and "w \<in> binary32 \<Longrightarrow> dot4 (Fin 0, Fin 0, Fin 1, Fin 0) (X, Y, Z, Fin 1) = Fin w"
proof -
  note one = has_value_Fin [of 1] and zero = has_value_Fin [of 0]
  have z: "has_value (fl_mul (Fin 0) X) 0" "has_value (fl_mul (Fin 0) Y) 0"
    "has_value (fl_mul (Fin 0) Z) 0"
    using fl_mul_value [OF zero assms(1)] fl_mul_value [OF zero assms(2)]
      fl_mul_value [OF zero assms(3)] by (simp_all add: zero_binary32)
  {
    assume u: "u \<in> binary32"
    from fl_mul_value [OF one assms(1)] u have "has_value (fl_mul (Fin 1) X) u" by simp
    from fl_add_value [OF this z(2)] u
    have "has_value (fl_add (fl_mul (Fin 1) X) (fl_mul (Fin 0) Y)) u" by simp
    from fl_add_value [OF this z(3)] u
    have "has_value (fl_add (fl_add (fl_mul (Fin 1) X) (fl_mul (Fin 0) Y)) (fl_mul (Fin 0) Z)) u"
      by simp
    from fl_add_pos_zero [OF this u]
    show "dot4 (Fin 1, Fin 0, Fin 0, Fin 0) (X, Y, Z, Fin 1) = Fin u"
      by (simp add: fl_mul_zero_one)
  }
  {
    assume v: "v \<in> binary32"
    from fl_mul_value [OF one assms(2)] v have "has_value (fl_mul (Fin 1) Y) v" by simp
    from fl_add_value [OF z(1) this] v
    have "has_value (fl_add (fl_mul (Fin 0) X) (fl_mul (Fin 1) Y)) v" by simp
    from fl_add_value [OF this z(3)] v
    have "has_value (fl_add (fl_add (fl_mul (Fin 0) X) (fl_mul (Fin 1) Y)) (fl_mul (Fin 0) Z)) v"
      by simp
    from fl_add_pos_zero [OF this v]
    show "dot4 (Fin 0, Fin 1, Fin 0, Fin 0) (X, Y, Z, Fin 1) = Fin v"
      by (simp add: fl_mul_zero_one)
  }
  {
    assume w: "w \<in> binary32"
    from fl_mul_value [OF one assms(3)] w have "has_value (fl_mul (Fin 1) Z) w" by simp
    moreover from fl_add_value [OF z(1) z(2)]
    have "has_value (fl_add (fl_mul (Fin 0) X) (fl_mul (Fin 0) Y)) 0"
      by (simp add: zero_binary32)
    ultimately
    have "has_value (fl_add (fl_add (fl_mul (Fin 0) X) (fl_mul (Fin 0) Y)) (fl_mul (Fin 1) Z)) w"
      using fl_add_value [of "fl_add (fl_mul (Fin 0) X) (fl_mul (Fin 0) Y)" 0
          "fl_mul (Fin 1) Z" w] w by simp
    from fl_add_pos_zero [OF this w]
    show "dot4 (Fin 0, Fin 0, Fin 1, Fin 0) (X, Y, Z, Fin 1) = Fin w"
      by (simp add: fl_mul_zero_one)
  }
qed

lemma identity_apply:
  assumes "has_value X u" and "has_value Y v" and "has_value Z w"
    and "u \<in> binary32" and "v \<in> binary32" and "w \<in> binary32"
  shows "mat_apply identity_matrix (X, Y, Z, Fin 1) = (Fin u, Fin v, Fin w)"
  using dot4_unit [OF assms(1,2,3)] assms(4,5,6)
  by (simp add: identity_matrix_def)

text \<open>The rounded product of a pixel offset with a depth, when it does not overflow.\<close>

lemma offset_times_depth:
  assumes "c \<in> binary32" and "is_finite (round32 (c * d))"
  shows "has_value (fl_div (fl_mul (fl_sub (Fin c) (Fin 0)) (Fin d)) (Fin 1))
           (fl_value (round32 (c * d)))"
    and "fl_value (round32 (c * d)) \<in> binary32"
proof -
  obtain q where q: "round32 (c * d) = Fin q \<or> round32 (c * d) = NZero"
    using assms(2) by (cases "round32 (c * d)") simp_all
  have "round32 (c * d) \<noteq> NZero"
    by (auto simp: round32_def Let_def split: if_splits)
  with q have q: "round32 (c * d) = Fin q" by simp
  from round32_representable [of "c * d"] q show rep: "fl_value (round32 (c * d)) \<in> binary32"
    by simp
  from fl_sub_value [OF has_value_Fin [of c] has_value_Fin [of 0]] assms(1)
  have "has_value (fl_sub (Fin c) (Fin 0)) c" by simp
  then have "is_finite (fl_sub (Fin c) (Fin 0))" and "fl_value (fl_sub (Fin c) (Fin 0)) = c"
    and "fl_sub (Fin c) (Fin 0) \<noteq> NaN"
    by (auto simp: has_value_def)
  then have "has_value (fl_mul (fl_sub (Fin c) (Fin 0)) (Fin d)) q"
    by (simp add: fl_mul_def q has_value_signed_zero)
  from fl_div_value [OF this has_value_Fin [of 1]] rep q
  show "has_value (fl_div (fl_mul (fl_sub (Fin c) (Fin 0)) (Fin d)) (Fin 1))
           (fl_value (round32 (c * d)))" by simp
qed

text \<open>The sample \<open>col = 3\<close>, \<open>row = 5\<close>, \<open>depth = 2\<close> under the unit camera.\<close>

lemma one_sample_points:
  "back_project_camera unit_camera [Fin 2] [Fin 5] [Fin 3] identity_matrix (Fin 1)
     = Inr [(Fin 6, Fin 10, Fin 2)]"
proof -
  have p: "(3 :: real) * 2 = 6" "(5 :: real) * 2 = 10" by simp_all
  have n: "(3 :: real) \<in> binary32" "(5 :: real) \<in> binary32" "(2 :: real) \<in> binary32"
    "(6 :: real) \<in> binary32" "(10 :: real) \<in> binary32"
    by (simp_all add: numeral_binary32)
  have f: "is_finite (round32 (3 * 2))" "is_finite (round32 (5 * 2))"
    "fl_value (round32 (3 * 2)) = 6" "fl_value (round32 (5 * 2)) = 10"
    by (simp_all add: p round32_exact n)
  from offset_times_depth [OF n(1) f(1)] offset_times_depth [OF n(2) f(2)]
  have "mat_apply identity_matrix
          (fl_div (fl_mul (fl_sub (Fin 3) (Fin 0)) (Fin 2)) (Fin 1),
           fl_div (fl_mul (fl_sub (Fin 5) (Fin 0)) (Fin 2)) (Fin 1), Fin 2, Fin 1)
        = (Fin 6, Fin 10, Fin 2)"
    unfolding f by (intro identity_apply has_value_Fin n)
  moreover have "mat_apply identity_matrix (Fin 6, Fin 10, Fin 2, Fin 1) = (Fin 6, Fin 10, Fin 2)"
    by (intro identity_apply has_value_Fin n)
  moreover have "scale_point (Fin 1) (Fin 6, Fin 10, Fin 2) = (Fin 6, Fin 10, Fin 2)"
    by (simp add: fl_mul_one n)
  ultimately show ?thesis
    by (simp add: back_project_camera_def broadcast2_def unit_camera_def)
qed

lemma round32_finite_Fin:
  assumes "is_finite (round32 r)"
  shows "round32 r = Fin (fl_value (round32 r))"
proof -
  have "round32 r \<noteq> NZero"
    by (auto simp: round32_def Let_def split: if_splits)
  with assms show ?thesis by (cases "round32 r") simp_all
qed

lemma identity_sample:
  assumes "c \<in> binary32" and "r \<in> binary32" and "d \<in> binary32"
    and "is_finite (round32 (c * d))" and "is_finite (round32 (r * d))"
  shows "scale_point (Fin 1) (mat_apply identity_matrix (homogeneous (mat_apply identity_matrix
            (fl_div (fl_mul (fl_sub (Fin c) (Fin 0)) (Fin d)) (Fin 1),
             fl_div (fl_mul (fl_sub (Fin r) (Fin 0)) (Fin d)) (Fin 1),
             Fin d, Fin 1))))
         = (round32 (c * d), round32 (r * d), Fin d)"
proof -
  let ?u = "fl_value (round32 (c * d))" and ?v = "fl_value (round32 (r * d))"
  note X = offset_times_depth [OF assms(1,4)] and Y = offset_times_depth [OF assms(2,5)]
  have "mat_apply identity_matrix
          (fl_div (fl_mul (fl_sub (Fin c) (Fin 0)) (Fin d)) (Fin 1),
           fl_div (fl_mul (fl_sub (Fin r) (Fin 0)) (Fin d)) (Fin 1), Fin d, Fin 1)
        = (Fin ?u, Fin ?v, Fin d)"
    using X(1) Y(1) has_value_Fin X(2) Y(2) assms(3) by (rule identity_apply)
  moreover have "mat_apply identity_matrix (Fin ?u, Fin ?v, Fin d, Fin 1) = (Fin ?u, Fin ?v, Fin d)"
    using has_value_Fin has_value_Fin has_value_Fin X(2) Y(2) assms(3) by (rule identity_apply)
  moreover have "scale_point (Fin 1) (Fin ?u, Fin ?v, Fin d) = (Fin ?u, Fin ?v, Fin d)"
    using X(2) Y(2) assms(3) by (simp add: fl_mul_one)
  ultimately show ?thesis
    using round32_finite_Fin [OF assms(4)] round32_finite_Fin [OF assms(5)] by simp
qed

lemma identity_camera_points:
  assumes "fx cam = Fin 1" and "fy cam = Fin 1" and "cx cam = Fin 0" and "cy cam = Fin 0"
    and "camera_to_worlds cam = identity_matrix"
    and "length rayCol = length depth" and "length rayRow = length depth"
    and "set rayCol \<subseteq> binary32" and "set rayRow \<subseteq> binary32" and "set depth \<subseteq> binary32"
    and "\<forall>k < length depth. is_finite (round32 (rayCol ! k * depth ! k))
                            \<and> is_finite (round32 (rayRow ! k * depth ! k))"
  shows "back_project_camera cam (map Fin depth) (map Fin rayRow) (map Fin rayCol)
           identity_matrix (Fin 1)
         = Inr (map (\<lambda>k. (round32 (rayCol ! k * depth ! k), round32 (rayRow ! k * depth ! k),
                          Fin (depth ! k)))
                  [0..<length depth])"
proof -
  let ?n = "length depth"
  have "back_project_camera cam (map Fin depth) (map Fin rayRow) (map Fin rayCol)
           identity_matrix (Fin 1)
        = Inr (map (\<lambda>k. scale_point (Fin 1) (mat_apply identity_matrix (homogeneous
            (mat_apply (camera_to_worlds cam)
              (fl_div (fl_mul (fl_sub (map Fin rayCol ! k) (cx cam)) (map Fin depth ! k)) (fx cam),
               fl_div (fl_mul (fl_sub (map Fin rayRow ! k) (cy cam)) (map Fin depth ! k)) (fy cam),
               map Fin depth ! k, Fin 1)))))
          [0..<length (map Fin depth)])"
    using assms(6,7) by (intro back_project_camera_samples) simp_all
  also have "map (\<lambda>k. scale_point (Fin 1) (mat_apply identity_matrix (homogeneous
            (mat_apply (camera_to_worlds cam)
              (fl_div (fl_mul (fl_sub (map Fin rayCol ! k) (cx cam)) (map Fin depth ! k)) (fx cam),
               fl_div (fl_mul (fl_sub (map Fin rayRow ! k) (cy cam)) (map Fin depth ! k)) (fy cam),
               map Fin depth ! k, Fin 1)))))
          [0..<length (map Fin depth)]
      = map (\<lambda>k. (round32 (rayCol ! k * depth ! k), round32 (rayRow ! k * depth ! k),
                          Fin (depth ! k)))
                  [0..<?n]"
  proof (rule map_cong)
    show "[0..<length (map Fin depth)] = [0..<?n]" by simp
  next
    fix k assume "k \<in> set [0..<?n]"
    then have k: "k < ?n" by simp
    with assms(6,7) have m: "rayCol ! k \<in> set rayCol" "rayRow ! k \<in> set rayRow"
      "depth ! k \<in> set depth" by simp_all
    with assms(8,9,10) have b: "rayCol ! k \<in> binary32" "rayRow ! k \<in> binary32"
      "depth ! k \<in> binary32" by blast+
    from assms(11) k have f: "is_finite (round32 (rayCol ! k * depth ! k))"
      "is_finite (round32 (rayRow ! k * depth ! k))" by simp_all
    from identity_sample [OF b f] k assms(1-7)
    show "scale_point (Fin 1) (mat_apply identity_matrix (homogeneous
            (mat_apply (camera_to_worlds cam)
              (fl_div (fl_mul (fl_sub (map Fin rayCol ! k) (cx cam)) (map Fin depth ! k)) (fx cam),
               fl_div (fl_mul (fl_sub (map Fin rayRow ! k) (cy cam)) (map Fin depth ! k)) (fy cam),
               map Fin depth ! k, Fin 1))))
          = (round32 (rayCol ! k * depth ! k), round32 (rayRow ! k * depth ! k), Fin (depth ! k))"
      by simp
  qed
  finally show ?thesis .
qed

text \<open>
  C3, as the spec states it: with unit intrinsics, identity matrices and scale 1 the
  output point of a sample is \<open>[col, row, depth]\<close>. For the sample \<open>col = 3\<close>, \<open>row = 5\<close>,
  \<open>depth = 2\<close> the code gives \<open>[6, 10, 2]\<close>: the pixel offsets are multiplied by the depth.
\<close>

theorem back_project_identity_not_pixel:
  "back_project_camera unit_camera [Fin 2] [Fin 5] [Fin 3] identity_matrix (Fin 1)
     = Inr [(Fin 6, Fin 10, Fin 2)]
   \<and> back_project_camera unit_camera [Fin 2] [Fin 5] [Fin 3] identity_matrix (Fin 1)
     \<noteq> Inr [(Fin 3, Fin 5, Fin 2)]"
  by (simp add: one_sample_points)

text \<open>
  C3, amended. For every camera with \<open>fx = fy = 1\<close>, \<open>cx = cy = 0\<close> and identity
  camera-to-world matrix, identity normalization matrix and scale factor 1, and finite
  float32 sample arrays of one length whose products \<open>rayCol[k] * depth[k]\<close> and
  \<open>rayRow[k] * depth[k]\<close> do not overflow, the back-projection returns for every
  sample \<open>k\<close> the point of the two rounded products and the depth,
  \<open>[fl(rayCol[k] * depth[k]), fl(rayRow[k] * depth[k]), depth[k]]\<close>; when both products are
  float32 numbers themselves this is \<open>[rayCol[k] * depth[k], rayRow[k] * depth[k],
  depth[k]]\<close> exactly.
\<close>

theorem back_project_identity:
  assumes "fx cam = Fin 1" and "fy cam = Fin 1" and "cx cam = Fin 0" and "cy cam = Fin 0"
    and "camera_to_worlds cam = identity_matrix"
    and "length rayCol = length depth" and "length rayRow = length depth"
    and "set rayCol \<subseteq> binary32" and "set rayRow \<subseteq> binary32" and "set depth \<subseteq> binary32"
    and "\<forall>k < length depth. is_finite (round32 (rayCol ! k * depth ! k))
                            \<and> is_finite (round32 (rayRow ! k * depth ! k))"
  shows "back_project_camera cam (map Fin depth) (map Fin rayRow) (map Fin rayCol)
           identity_matrix (Fin 1)
         = Inr (map (\<lambda>k. (round32 (rayCol ! k * depth ! k), round32 (rayRow ! k * depth ! k),
                          Fin (depth ! k)))
                  [0..<length depth])
       \<and> ((\<forall>k < length depth. rayCol ! k * depth ! k \<in> binary32
                              \<and> rayRow ! k * depth ! k \<in> binary32)
          \<longrightarrow> back_project_camera cam (map Fin depth) (map Fin rayRow) (map Fin rayCol)
                 identity_matrix (Fin 1)
               = Inr (map (\<lambda>k. (Fin (rayCol ! k * depth ! k), Fin (rayRow ! k * depth ! k),
                                Fin (depth ! k)))
                        [0..<length depth]))"
proof -
  let ?n = "length depth"
  have "map (\<lambda>k. (round32 (rayCol ! k * depth ! k), round32 (rayRow ! k * depth ! k),
                   Fin (depth ! k))) [0..<?n]
      = map (\<lambda>k. (Fin (rayCol ! k * depth ! k), Fin (rayRow ! k * depth ! k),
                   Fin (depth ! k))) [0..<?n]"
    if "\<forall>k < ?n. rayCol ! k * depth ! k \<in> binary32 \<and> rayRow ! k * depth ! k \<in> binary32"
    using that by (intro map_cong) (simp_all add: round32_exact)
  with identity_camera_points [OF assms] show ?thesis by simp
qed

theorem back_project_identity_witness:
  "back_project_camera unit_camera [Fin 2, Fin 4] [Fin 5, Fin 1] [Fin 3, Fin 7]
     identity_matrix (Fin 1)
   = Inr [(Fin 6, Fin 10, Fin 2), (Fin 28, Fin 4, Fin 4)]"
proof -
  have u: "fx unit_camera = Fin 1" "fy unit_camera = Fin 1" "cx unit_camera = Fin 0"
    "cy unit_camera = Fin 0" "camera_to_worlds unit_camera = identity_matrix"
    by (simp_all add: unit_camera_def)
  have l: "length [3, 7 :: real] = length [2, 4 :: real]"
    "length [5, 1 :: real] = length [2, 4 :: real]" by simp_all
  have b: "set [3, 7 :: real] \<subseteq> binary32" "set [5, 1 :: real] \<subseteq> binary32"
    "set [2, 4 :: real] \<subseteq> binary32"
    by (simp_all add: numeral_binary32 one_binary32)
  have "\<forall>k < length [2, 4 :: real]. [3, 7 :: real] ! k * [2, 4] ! k \<in> binary32
                              \<and> [5, 1 :: real] ! k * [2, 4] ! k \<in> binary32"
    by (simp add: less_Suc_eq numeral_binary32 nth_Cons')
  then have f: "\<forall>k < length [2, 4 :: real]. is_finite (round32 ([3, 7 :: real] ! k * [2, 4] ! k))
                              \<and> is_finite (round32 ([5, 1 :: real] ! k * [2, 4] ! k))"
    by (simp add: round32_exact)
  have i: "[0..<length [2, 4 :: real]] = [0, 1]" by (simp add: upt_rec)
  from back_project_identity [OF u l b f] show ?thesis
    unfolding i by (simp add: round32_exact numeral_binary32)
qed

section \<open>Properties of the plane fit\<close>

lemma fit_plane_rejects:
  assumes "P = [] \<or> \<not> list_all finite_point P"
  shows "fit_plane reg P = Inl ValueError"
  using assms by (auto simp: fit_plane_def LinearRegression_fit_def)

lemma fit_plane_passes:
  assumes "P \<noteq> []" and "list_all finite_point P"
  shows "fit_plane reg P = (case reg P of Inl e \<Rightarrow> Inl e | Inr (a, b, d) \<Rightarrow> Inr (a, b, - 1, d))"
  using assms by (simp add: fit_plane_def LinearRegression_fit_def)

lemma single_row_plane:
  "fit_plane single_row_fit [(Fin 1, Fin 2, Fin 3)] = Inr (Fin 0, Fin 0, - 1, Fin 3)"
  by (simp add: fit_plane_def LinearRegression_fit_def single_row_fit_def is_zero_def)

text \<open>
  C5, as the spec states it: a cloud of fewer than 3 points fails with
  InsufficientData and no plane is returned. The code has no such check: the cloud of
  the single point \<open>(1, 2, 3)\<close> goes to the regression, which fits it, and the plane
  \<open>(0, 0, -1, 3)\<close> comes back.
\<close>

theorem fit_plane_accepts_one_point:
  "length [(Fin 1, Fin 2, Fin 3)] < (3 :: nat)
   \<and> fit_plane single_row_fit [(Fin 1, Fin 2, Fin 3)] = Inr (Fin 0, Fin 0, - 1, Fin 3)"
  by (simp add: single_row_plane)

text \<open>
  C5, amended. The plane fit makes no check of the number of points or of their
  collinearity; it has no InsufficientData and no DegeneratePlane error. A point cloud
  of fewer than 3 points, or of collinear points, is handed to the regression like any
  other cloud with at least one point and finite coordinates: whenever the regression
  returns coefficients \<open>(a, b)\<close> and intercept \<open>d\<close> the plane equation \<open>(a, b, -1, d)\<close>
  is returned, and the fit fails only with the regression's own exception. An empty
  cloud and a cloud with a NaN or infinite coordinate fail with \<open>ValueError\<close>.
\<close>

theorem fit_plane_no_degeneracy_check:
  "(P \<noteq> [] \<and> list_all finite_point P \<longrightarrow>
      (\<forall>a b d. reg P = Inr (a, b, d) \<longrightarrow> fit_plane reg P = Inr (a, b, - 1, d))
      \<and> (\<forall>e. reg P = Inl e \<longrightarrow> fit_plane reg P = Inl e))
   \<and> (P = [] \<or> \<not> list_all finite_point P \<longrightarrow> fit_plane reg P = Inl ValueError)"
  using fit_plane_passes [of P reg] fit_plane_rejects [of P reg] by auto

theorem fit_plane_no_degeneracy_check_witness:
  "fit_plane single_row_fit [(Fin 1, Fin 2, Fin 3)] = Inr (Fin 0, Fin 0, - 1, Fin 3)
   \<and> fit_plane single_row_fit [] = Inl ValueError"
proof -
  have f: "[(Fin 1, Fin 2, Fin 3)] \<noteq> [] \<and> list_all finite_point [(Fin 1, Fin 2, Fin 3)]"
    by simp
  have r: "single_row_fit [(Fin 1, Fin 2, Fin 3)] = Inr (Fin 0, Fin 0, Fin 3)"
    by (simp add: single_row_fit_def is_zero_def)
  from fit_plane_no_degeneracy_check [of "[(Fin 1, Fin 2, Fin 3)]" single_row_fit]
    fit_plane_no_degeneracy_check [of "[]" single_row_fit] f r
  show ?thesis by blast
qed

section \<open>Properties of the estimation job\<close>

lemma camera_points_scale:
  assumes "camera_points (p\<lparr>scale_factor := Fin 1\<rparr>) i = Inr ps"
  shows "camera_points (p\<lparr>scale_factor := s\<rparr>) i
         = Inr (map (\<lambda>(a, b, c). (fl_mul a s, fl_mul b s, fl_mul c s)) ps)"
  using assms
  by (auto simp: camera_points_def split: if_splits prod.splits
      intro: back_project_camera_scale)

lemma world_xyz_loop_scale:
  assumes "world_xyz_loop (p\<lparr>scale_factor := Fin 1\<rparr>) js = Inr w"
  shows "world_xyz_loop (p\<lparr>scale_factor := s\<rparr>) js
         = Inr (map (map (\<lambda>(a, b, c). (fl_mul a s, fl_mul b s, fl_mul c s))) w)"
  using assms
proof (induction js arbitrary: w)
  case Nil
  then show ?case by simp
next
  case (Cons i js)
  from Cons.prems obtain ps w' where
    ps: "camera_points (p\<lparr>scale_factor := Fin 1\<rparr>) i = Inr ps"
    and w': "world_xyz_loop (p\<lparr>scale_factor := Fin 1\<rparr>) js = Inr w'"
    and w: "w = ps # w'"
    by (auto split: sum.splits)
  from camera_points_scale [OF ps] Cons.IH [OF w'] w show ?case by simp
qed

lemma point_cloud_scale:
  assumes "point_cloud (p\<lparr>scale_factor := Fin 1\<rparr>) = Inr ps"
  shows "point_cloud (p\<lparr>scale_factor := s\<rparr>)
         = Inr (map (\<lambda>(a, b, c). (fl_mul a s, fl_mul b s, fl_mul c s)) ps)"
proof -
  from assms obtain w where
    n: "length (expanded_cameras p) = length (surface_detection p)"
    and w: "world_xyz_loop (p\<lparr>scale_factor := Fin 1\<rparr>) [0..<length (expanded_cameras p)] = Inr w"
    and c: "np_concatenate w = Inr ps"
    by (auto simp: point_cloud_def Let_def split: if_splits sum.splits)
  from c have "w \<noteq> []" and "ps = concat w"
    by (auto simp: np_concatenate_def split: if_splits)
  then have "np_concatenate (map (map (\<lambda>(a, b, c). (fl_mul a s, fl_mul b s, fl_mul c s))) w)
      = Inr (map (\<lambda>(a, b, c). (fl_mul a s, fl_mul b s, fl_mul c s)) ps)"
    by (simp add: np_concatenate_def map_concat)
  with n world_xyz_loop_scale [OF w] show ?thesis
    by (simp add: point_cloud_def)
qed

lemma camera_points_shaped:
  assumes "well_shaped p" and "i < length (expanded_cameras p)"
  shows "\<exists>ps. camera_points p i = Inr ps \<and> length ps = length (surface_detection p ! i)"
proof -
  obtain r0 y x where r: "ray_indices p ! i = (r0, y, x)" by (cases "ray_indices p ! i")
  from assms have i: "i < length (ray_indices p)"
    by (simp add: well_shaped_def)
  from assms have "case ray_indices p ! i of
      (r0, y, x) \<Rightarrow> length y = length (surface_detection p ! i)
                  \<and> length x = length (surface_detection p ! i)"
    by (simp add: well_shaped_def list_all_iff)
  with r have l: "length x = length (surface_detection p ! i)"
    "length y = length (surface_detection p ! i)" by simp_all
  from i r back_project_camera_samples [OF l] show ?thesis
    by (simp add: camera_points_def)
qed

lemma world_xyz_loop_shaped:
  assumes "well_shaped p" and "\<And>i. i \<in> set js \<Longrightarrow> i < length (expanded_cameras p)"
  shows "\<exists>w. world_xyz_loop p js = Inr w
           \<and> map length w = map (\<lambda>i. length (surface_detection p ! i)) js"
  using assms(2)
proof (induction js)
  case Nil
  then show ?case by simp
next
  case (Cons i js)
  from Cons.prems have "i < length (expanded_cameras p)" by simp
  from camera_points_shaped [OF assms(1) this] obtain ps where
    ps: "camera_points p i = Inr ps" "length ps = length (surface_detection p ! i)" by blast
  from Cons obtain w where
    w: "world_xyz_loop p js = Inr w"
    "map length w = map (\<lambda>i. length (surface_detection p ! i)) js" by auto
  from ps w show ?case by simp
qed

lemma point_cloud_shaped:
  assumes "well_shaped p" and "expanded_cameras p \<noteq> []"
  shows "\<exists>ps. point_cloud p = Inr ps
           \<and> length ps = sum_list (map length (surface_detection p))"
proof -
  let ?n = "length (expanded_cameras p)"
  from assms(1) have n: "length (surface_detection p) = ?n"
    by (simp add: well_shaped_def)
  from world_xyz_loop_shaped [OF assms(1), of "[0..<?n]"] obtain w where
    w: "world_xyz_loop p [0..<?n] = Inr w"
    "map length w = map (\<lambda>i. length (surface_detection p ! i)) [0..<?n]" by auto
  have "map (\<lambda>i. length (surface_detection p ! i)) [0..<?n] = map length (surface_detection p)"
    using n by (intro nth_equalityI) simp_all
  with w(2) have len: "length (concat w) = sum_list (map length (surface_detection p))"
    by (simp add: length_concat)
  from w(2) assms(2) have "w \<noteq> []"
    by (metis length_map length_upt length_0_conv diff_zero)
  with w(1) n len show ?thesis
    by (simp add: point_cloud_def np_concatenate_def)
qed

lemma well_shaped_scale: "well_shaped (p\<lparr>scale_factor := s\<rparr>) = well_shaped p"
  by (simp add: well_shaped_def)

text \<open>The clouds of the job with two cameras, at scale factor 1.\<close>

lemma two_cameras_unit_cloud:
  "point_cloud (two_cameras\<lparr>scale_factor := Fin 1\<rparr>) =
     Inr [(Fin 0, Fin 0, Fin 1), (Fin 1, Fin 0, Fin 1), (Fin 0, Fin 1, Fin 1), (Fin 1, Fin 1, Fin 1),
          (Fin 2, Fin 0, Fin 1), (Fin 3, Fin 0, Fin 1), (Fin 2, Fin 1, Fin 1), (Fin 3, Fin 1, Fin 1)]"
proof -
  have u: "fx unit_camera = Fin 1" "fy unit_camera = Fin 1" "cx unit_camera = Fin 0"
    "cy unit_camera = Fin 0" "camera_to_worlds unit_camera = identity_matrix"
    by (simp_all add: unit_camera_def)
  have i: "[0..<length [1, 1, 1, 1 :: real]] = [0, 1, 2, 3]" by (simp add: upt_rec)
  have b: "set [0, 1, 0, 1 :: real] \<subseteq> binary32" "set [2, 3, 2, 3 :: real] \<subseteq> binary32"
    "set [0, 0, 1, 1 :: real] \<subseteq> binary32" "set [1, 1, 1, 1 :: real] \<subseteq> binary32"
    by (simp_all add: numeral_binary32 one_binary32 zero_binary32)
  have f1: "\<forall>k < length [1, 1, 1, 1 :: real].
      is_finite (round32 ([0, 1, 0, 1 :: real] ! k * [1, 1, 1, 1] ! k))
      \<and> is_finite (round32 ([0, 0, 1, 1 :: real] ! k * [1, 1, 1, 1] ! k))"
    by (simp add: less_Suc_eq nth_Cons' round32_exact one_binary32 zero_binary32)
  have f2: "\<forall>k < length [1, 1, 1, 1 :: real].
      is_finite (round32 ([2, 3, 2, 3 :: real] ! k * [1, 1, 1, 1] ! k))
      \<and> is_finite (round32 ([0, 0, 1, 1 :: real] ! k * [1, 1, 1, 1] ! k))"
    by (simp add: less_Suc_eq nth_Cons' round32_exact numeral_binary32 one_binary32
        zero_binary32)
  have c1: "back_project_camera unit_camera [Fin 1, Fin 1, Fin 1, Fin 1]
      [Fin 0, Fin 0, Fin 1, Fin 1] [Fin 0, Fin 1, Fin 0, Fin 1] identity_matrix (Fin 1)
      = Inr [(Fin 0, Fin 0, Fin 1), (Fin 1, Fin 0, Fin 1), (Fin 0, Fin 1, Fin 1),
             (Fin 1, Fin 1, Fin 1)]"
    using identity_camera_points [OF u, of "[0, 1, 0, 1]" "[1, 1, 1, 1]" "[0, 0, 1, 1]"] b f1
    unfolding i by (simp add: round32_exact one_binary32 zero_binary32)
  have c2: "back_project_camera unit_camera [Fin 1, Fin 1, Fin 1, Fin 1]
      [Fin 0, Fin 0, Fin 1, Fin 1] [Fin 2, Fin 3, Fin 2, Fin 3] identity_matrix (Fin 1)
      = Inr [(Fin 2, Fin 0, Fin 1), (Fin 3, Fin 0, Fin 1), (Fin 2, Fin 1, Fin 1),
             (Fin 3, Fin 1, Fin 1)]"
    using identity_camera_points [OF u, of "[2, 3, 2, 3]" "[1, 1, 1, 1]" "[0, 0, 1, 1]"] b f2
    unfolding i by (simp add: round32_exact numeral_binary32 one_binary32 zero_binary32)
  show ?thesis
    by (simp add: point_cloud_def two_cameras_def camera_points_def np_concatenate_def
        upt_rec c1 c2)
qed

lemma two_cameras_shaped: "well_shaped two_cameras \<and> expanded_cameras two_cameras \<noteq> []"
  by (simp add: well_shaped_def two_cameras_def upt_rec)

text \<open>
  C9. For every job with at least one camera whose sample arrays have matching sizes,
  the aggregate point cloud has as many points as there are depth samples over all
  cameras, and with scale factor \<open>s\<close> each coordinate of each point is the product, in
  floating point, of \<open>s\<close> and the same coordinate of the point that the same inputs give
  with scale factor 1. For the job of the spec (two cameras of 4 depth samples each,
  identity extrinsics and normalization, scale factor 2) the cloud has 8 points, each
  twice the point at scale factor 1.
\<close>

theorem point_cloud_homogeneous:
  assumes "well_shaped p" and "expanded_cameras p \<noteq> []"
  shows "\<exists>ps. point_cloud (p\<lparr>scale_factor := Fin 1\<rparr>) = Inr ps
           \<and> point_cloud (p\<lparr>scale_factor := s\<rparr>)
               = Inr (map (\<lambda>(a, b, c). (fl_mul a s, fl_mul b s, fl_mul c s)) ps)
           \<and> length ps = sum_list (map length (surface_detection p))"
proof -
  from assms have "well_shaped (p\<lparr>scale_factor := Fin 1\<rparr>)"
    and "expanded_cameras (p\<lparr>scale_factor := Fin 1\<rparr>) \<noteq> []"
    by (simp_all add: well_shaped_scale)
  from point_cloud_shaped [OF this] obtain ps where
    ps: "point_cloud (p\<lparr>scale_factor := Fin 1\<rparr>) = Inr ps"
    "length ps = sum_list (map length (surface_detection p))" by auto
  from ps point_cloud_scale [OF ps(1)] show ?thesis by blast
qed

theorem point_cloud_homogeneous_witness:
  "point_cloud (two_cameras\<lparr>scale_factor := Fin 1\<rparr>) =
     Inr [(Fin 0, Fin 0, Fin 1), (Fin 1, Fin 0, Fin 1), (Fin 0, Fin 1, Fin 1), (Fin 1, Fin 1, Fin 1),
          (Fin 2, Fin 0, Fin 1), (Fin 3, Fin 0, Fin 1), (Fin 2, Fin 1, Fin 1), (Fin 3, Fin 1, Fin 1)]
   \<and> point_cloud two_cameras =
     Inr [(Fin 0, Fin 0, Fin 2), (Fin 2, Fin 0, Fin 2), (Fin 0, Fin 2, Fin 2), (Fin 2, Fin 2, Fin 2),
          (Fin 4, Fin 0, Fin 2), (Fin 6, Fin 0, Fin 2), (Fin 4, Fin 2, Fin 2), (Fin 6, Fin 2, Fin 2)]
   \<and> length [(Fin 0, Fin 0, Fin 2), (Fin 2, Fin 0, Fin 2), (Fin 0, Fin 2, Fin 2),
              (Fin 2, Fin 2, Fin 2), (Fin 4, Fin 0, Fin 2), (Fin 6, Fin 0, Fin 2),
              (Fin 4, Fin 2, Fin 2), (Fin 6, Fin 2, Fin 2)] = (8 :: nat)"
proof -
  have s: "two_cameras\<lparr>scale_factor := Fin 2\<rparr> = two_cameras"
    by (simp add: two_cameras_def)
  from two_cameras_shaped have a: "well_shaped two_cameras"
    and b: "expanded_cameras two_cameras \<noteq> []" by simp_all
  have m: "fl_mul (Fin 0) (Fin 2) = Fin 0" "fl_mul (Fin 1) (Fin 2) = Fin 2"
    "fl_mul (Fin 2) (Fin 2) = Fin 4" "fl_mul (Fin 3) (Fin 2) = Fin 6"
    by (simp_all add: fl_mul_def round32_exact numeral_binary32 zero_binary32 signed_zero_def)
  from point_cloud_homogeneous [OF a b, of "Fin 2"] show ?thesis
    unfolding s two_cameras_unit_cloud by (auto simp: m)
qed

text \<open>The example job, run with the regression's value on its one point: the point
  \<open>(6, 10, 2)\<close> and the plane \<open>z = 2\<close>.\<close>

lemma example_config_run:
  "plane_estimation single_row_fit example_config =
     Inr (None, [NoCheckpoint,
                 PrintVertices [(Fin 0, Fin 0, Fin 0), (Fin 1, Fin 1, Fin 1)],
                 ShowPlot (Fin 0, Fin 0, - 1, Fin 2) [(Fin 0, Fin 0, Fin 0), (Fin 1, Fin 1, Fin 1)],
                 PrintPlane (Fin 0, Fin 0, - 1, Fin 2)])"
proof -
  have l: "load_state example_config = Inr [NoCheckpoint]"
    by (simp add: load_state_def example_config_def)
  have p: "pipeline_setup example_config = one_sample"
    by (simp add: example_config_def)
  have v: "vertices one_sample = [(Fin 0, Fin 0, Fin 0), (Fin 1, Fin 1, Fin 1)]"
    by (simp add: one_sample_def)
  have c: "point_cloud one_sample = Inr [(Fin 6, Fin 10, Fin 2)]"
    by (simp add: point_cloud_def one_sample_def camera_points_def np_concatenate_def
        one_sample_points)
  have f: "fit_plane single_row_fit [(Fin 6, Fin 10, Fin 2)] = Inr (Fin 0, Fin 0, - 1, Fin 2)"
    by (simp add: fit_plane_def LinearRegression_fit_def single_row_fit_def is_zero_def)
  show ?thesis
    by (simp add: plane_estimation_def l p v c f Let_def)
qed

text \<open>
  C8, as the spec states it: a successful run returns the plane equation and the
  reference vertices to its caller. The example job succeeds, fits the plane
  \<open>(0, 0, -1, 2)\<close> and returns \<open>None\<close>: the function has no return statement.
\<close>

theorem plane_estimation_returns_nothing:
  "fst (projr (plane_estimation single_row_fit example_config)) = None
   \<and> fst (projr (plane_estimation single_row_fit example_config))
       \<noteq> Some ((Fin 0, Fin 0, - 1, Fin 2), vertices (pipeline_setup example_config))
   \<and> \<not> isl (plane_estimation single_row_fit example_config)"
  by (simp add: example_config_run)

text \<open>
  C8, amended. On every successful run the job fits the plane \<open>(a, b, -1, d)\<close> to the
  aggregate point cloud, prints the unmodified reference vertices of the data manager
  and the plane equation to the console (and shows both in the figure) as its last
  effects, and returns no value (\<open>None\<close>) to its caller.
\<close>

theorem plane_estimation_result:
  assumes "plane_estimation reg config = Inr (ret, out)"
  shows "ret = None
       \<and> (\<exists>loaded cloud a b d.
             load_state config = Inr loaded
           \<and> point_cloud (pipeline_setup config) = Inr cloud
           \<and> fit_plane reg cloud = Inr (a, b, - 1, d)
           \<and> out = loaded @ [PrintVertices (vertices (pipeline_setup config)),
                              ShowPlot (a, b, - 1, d) (vertices (pipeline_setup config)),
                              PrintPlane (a, b, - 1, d)])"
proof -
  from assms obtain loaded cloud plane where
    l: "load_state config = Inr loaded"
    and c: "point_cloud (pipeline_setup config) = Inr cloud"
    and f: "fit_plane reg cloud = Inr plane"
    and r: "ret = None"
    and out: "out = loaded @ [PrintVertices (vertices (pipeline_setup config)),
                               ShowPlot plane (vertices (pipeline_setup config)),
                               PrintPlane plane]"
    by (auto simp: plane_estimation_def Let_def split: sum.splits)
  from f obtain a b d where "plane = (a, b, - 1, d)"
    by (auto simp: fit_plane_def split: sum.splits)
  with l c f r out show ?thesis by blast
qed

theorem plane_estimation_result_witness:
  "(None :: (plane_equation \<times> vec3 list) option) = None
   \<and> (\<exists>loaded cloud a b d.
         load_state example_config = Inr loaded
       \<and> point_cloud (pipeline_setup example_config) = Inr cloud
       \<and> fit_plane single_row_fit cloud = Inr (a, b, - 1, d)
       \<and> [NoCheckpoint,
           PrintVertices [(Fin 0, Fin 0, Fin 0), (Fin 1, Fin 1, Fin 1)],
           ShowPlot (Fin 0, Fin 0, - 1, Fin 2) [(Fin 0, Fin 0, Fin 0), (Fin 1, Fin 1, Fin 1)],
           PrintPlane (Fin 0, Fin 0, - 1, Fin 2)]
         = loaded @ [PrintVertices (vertices (pipeline_setup example_config)),
                     ShowPlot (a, b, - 1, d) (vertices (pipeline_setup example_config)),
                     PrintPlane (a, b, - 1, d)])"
  by (rule plane_estimation_result [OF example_config_run])

section \<open>Degenerate intrinsics\<close>

lemma fl_div_zero_not_finite: "is_zero z \<Longrightarrow> \<not> is_finite (fl_div v z)"
  by (cases v; cases z) (auto simp: fl_div_def is_zero_def signed_inf_def)

lemma fl_mul_not_finite_left: "\<not> is_finite a \<Longrightarrow> \<not> is_finite (fl_mul a b)"
  by (cases a; cases b) (simp_all add: fl_mul_def is_zero_def signed_inf_def)

lemma fl_mul_not_finite_right: "\<not> is_finite b \<Longrightarrow> \<not> is_finite (fl_mul a b)"
  by (cases a; cases b) (simp_all add: fl_mul_def is_zero_def signed_inf_def)

lemma fl_add_not_finite_left: "\<not> is_finite a \<Longrightarrow> \<not> is_finite (fl_add a b)"
  by (cases a; cases b) (simp_all add: fl_add_def)

lemma fl_add_not_finite_right: "\<not> is_finite b \<Longrightarrow> \<not> is_finite (fl_add a b)"
  by (cases a; cases b) (simp_all add: fl_add_def)

lemma dot4_not_finite:
  assumes "\<not> is_finite b0 \<or> \<not> is_finite b1"
  shows "\<not> is_finite (dot4 r (b0, b1, b2, b3))"
proof -
  obtain a0 a1 a2 a3 where r: "r = (a0, a1, a2, a3)" by (cases r)
  from assms have "\<not> is_finite (fl_mul a0 b0) \<or> \<not> is_finite (fl_mul a1 b1)"
    using fl_mul_not_finite_right by blast
  then have "\<not> is_finite (fl_add (fl_mul a0 b0) (fl_mul a1 b1))"
    using fl_add_not_finite_left fl_add_not_finite_right by blast
  then show ?thesis
    unfolding r by (simp add: fl_add_not_finite_left)
qed

lemma mat_apply_not_finite:
  assumes "\<not> is_finite b0 \<or> \<not> is_finite b1"
  shows "case mat_apply m (b0, b1, b2, b3) of
           (a, b, c) \<Rightarrow> \<not> is_finite a \<and> \<not> is_finite b \<and> \<not> is_finite c"
proof -
  obtain r0 r1 r2 where m: "m = (r0, r1, r2)" by (cases m)
  from assms show ?thesis
    unfolding m by (simp add: dot4_not_finite)
qed

lemma sample_not_finite:
  assumes "\<not> is_finite X \<or> \<not> is_finite Y"
  shows "case scale_point s (mat_apply T (homogeneous (mat_apply M (X, Y, Z, Fin 1)))) of
           (a, b, c) \<Rightarrow> \<not> is_finite a \<and> \<not> is_finite b \<and> \<not> is_finite c"
proof -
  obtain w0 w1 w2 where w: "mat_apply M (X, Y, Z, Fin 1) = (w0, w1, w2)"
    by (cases "mat_apply M (X, Y, Z, Fin 1)")
  from mat_apply_not_finite [OF assms, of M Z "Fin 1"] w
  have "\<not> is_finite w0" by simp
  then have "\<not> is_finite w0 \<or> \<not> is_finite w1" ..
  from mat_apply_not_finite [OF this, of T w2 "Fin 1"]
  obtain t0 t1 t2 where t: "mat_apply T (w0, w1, w2, Fin 1) = (t0, t1, t2)"
    and nf: "\<not> is_finite t0" "\<not> is_finite t1" "\<not> is_finite t2"
    by (cases "mat_apply T (w0, w1, w2, Fin 1)") auto
  from nf show ?thesis
    by (simp add: w t fl_mul_not_finite_left)
qed

text \<open>
  C4, as the spec states it: a camera with \<open>fx = 0\<close> makes the back-projection fail.
  The code divides without a check, and a float division by zero raises nothing: the
  camera with \<open>fx = 0\<close> contributes a point (of NaN coordinates) for its sample.
\<close>

theorem back_project_zero_fx_returns_points:
  "fx degenerate_camera = Fin 0
   \<and> back_project_camera degenerate_camera [Fin 2] [Fin 1] [Fin 1] identity_matrix (Fin 1)
     = Inr [(NaN, NaN, NaN)]"
  by (simp add: back_project_camera_def degenerate_camera_def identity_matrix_def
      broadcast2_def fl_sub_def fl_add_def fl_mul_def fl_div_def signed_inf_def signed_zero_def
      is_zero_def round32_exact numeral_binary32 one_binary32 zero_binary32 Let_def)

text \<open>
  C4, amended. For every camera with \<open>fx = 0\<close> or \<open>fy = 0\<close> (a zero of either sign, and
  sample arrays of one size) the per-camera back-projection raises nothing: it returns one point per
  sample, and every coordinate of every such point is infinite or NaN. The job fails
  later, in the plane fit: a cloud that holds one of these points makes the fit raise
  \<open>ValueError\<close>.
\<close>

theorem back_project_degenerate_intrinsics:
  assumes "is_zero (fx cam) \<or> is_zero (fy cam)"
    and "length x = length depth" and "length y = length depth"
  shows "\<exists>ps. back_project_camera cam depth y x T s = Inr ps
           \<and> length ps = length depth
           \<and> (\<forall>p \<in> set ps. case p of
                 (a, b, c) \<Rightarrow> \<not> is_finite a \<and> \<not> is_finite b \<and> \<not> is_finite c)
           \<and> (\<forall>reg cloud. set ps \<inter> set cloud \<noteq> {} \<longrightarrow> fit_plane reg cloud = Inl ValueError)"
proof -
  let ?pt = "\<lambda>k. scale_point s (mat_apply T (homogeneous (mat_apply (camera_to_worlds cam)
            (fl_div (fl_mul (fl_sub (x ! k) (cx cam)) (depth ! k)) (fx cam),
             fl_div (fl_mul (fl_sub (y ! k) (cy cam)) (depth ! k)) (fy cam),
             depth ! k, Fin 1))))"
  let ?ps = "map ?pt [0..<length depth]"
  have bp: "back_project_camera cam depth y x T s = Inr ?ps"
    using assms(2,3) by (rule back_project_camera_samples)
  have nf: "case ?pt k of (a, b, c) \<Rightarrow> \<not> is_finite a \<and> \<not> is_finite b \<and> \<not> is_finite c" for k
  proof -
    from assms(1) have
      "\<not> is_finite (fl_div (fl_mul (fl_sub (x ! k) (cx cam)) (depth ! k)) (fx cam))
       \<or> \<not> is_finite (fl_div (fl_mul (fl_sub (y ! k) (cy cam)) (depth ! k)) (fy cam))"
      by (auto simp: fl_div_zero_not_finite)
    then show ?thesis by (rule sample_not_finite)
  qed
  then have all: "\<forall>p \<in> set ?ps. case p of
      (a, b, c) \<Rightarrow> \<not> is_finite a \<and> \<not> is_finite b \<and> \<not> is_finite c"
    by auto
  have "fit_plane reg cloud = Inl ValueError" if "set ?ps \<inter> set cloud \<noteq> {}" for reg cloud
  proof -
    from that obtain p where p: "p \<in> set ?ps" "p \<in> set cloud" by blast
    from all p(1) have "\<not> finite_point p" by (cases p) auto
    with p(2) have "\<not> list_all finite_point cloud" by (auto simp: list_all_iff)
    then show ?thesis by (simp add: fit_plane_rejects)
  qed
  with bp all show ?thesis by (intro exI [of _ ?ps]) simp
qed

theorem back_project_degenerate_intrinsics_witness:
  "\<exists>ps. back_project_camera degenerate_camera [Fin 2] [Fin 1] [Fin 1] identity_matrix (Fin 1)
           = Inr ps
       \<and> length ps = 1
       \<and> (\<forall>p \<in> set ps. case p of
             (a, b, c) \<Rightarrow> \<not> is_finite a \<and> \<not> is_finite b \<and> \<not> is_finite c)
       \<and> (\<forall>reg cloud. set ps \<inter> set cloud \<noteq> {} \<longrightarrow> fit_plane reg cloud = Inl ValueError)"
proof -
  have a: "is_zero (fx degenerate_camera) \<or> is_zero (fy degenerate_camera)"
    by (simp add: degenerate_camera_def is_zero_def)
  have b: "length [Fin 1] = length [Fin 2]" by simp
  from back_project_degenerate_intrinsics [OF a b b, of identity_matrix "Fin 1"]
  show ?thesis by simp
qed

end
